theory Spec2Isabelle
  imports Main
begin

section \<open>Data model\<close>

text \<open>
  The Go values the reaper (\<^verbatim>\<open>reaper/task_reaper.go\<close>) and the task/container table
  handle. A Go \<^verbatim>\<open>error\<close> is compared by identity: \<^verbatim>\<open>executor.ErrContainerNotFound\<close> is
  one distinguished value, and every other error is \<open>OtherError\<close> with its message, so an
  error that merely carries the same text is a different value.
  \<open>ErrStoreResourceNotFound\<close> is the store's "not found" of \<^verbatim>\<open>task_by_guid\<close>.
\<close>

datatype error = ErrContainerNotFound | ErrStoreResourceNotFound | OtherError string

datatype task_state =
    TaskStateInvalid
  | TaskStatePending
  | TaskStateClaimed
  | TaskStateRunning
  | TaskStateCompleted
  | TaskStateResolving

record task =
  TaskGuid :: string
  CellID :: string
  State :: task_state
  Failed :: bool
  FailureReason :: string
  Result :: string
  ResultFile :: string

datatype container_state =
    StateReserved
  | StateInitializing
  | StateCreated
  | StateRunning
  | StateCompleted

text \<open>
  \<^verbatim>\<open>executor.ContainerRunResult{Failed, FailureReason}\<close> and \<^verbatim>\<open>executor.Container\<close>; the
  fields are prefixed where the task record already uses the name.
\<close>

record container_run_result =
  RunFailed :: bool
  RunFailureReason :: string

record container =
  Guid :: string
  ContainerState :: container_state
  RunResult :: container_run_result
  Tags :: "string \<rightharpoonup> string"

text \<open>
  Every call on a collaborator (store, executor client, delegate, logger, timer) is
  recorded with its name and its arguments in call order, the way the test doubles of the
  repository record \<^verbatim>\<open>...ArgsForCall\<close>.
\<close>

datatype arg = Str string | Bool bool | Dur int | Err error

datatype call = Call string "arg list"

fun call_name :: "call \<Rightarrow> string" where
  "call_name (Call n as) = n"

fun call_args :: "call \<Rightarrow> arg list" where
  "call_args (Call n as) = as"

section \<open>The task reaper\<close>

text \<open>
  The reaper's collaborators are Go interfaces (\<^verbatim>\<open>bbs.RepBBS\<close>, \<^verbatim>\<open>executor.Client\<close>);
  they are parameters of the model: each operation takes the state \<open>'w\<close> of the outside
  world and returns its result with the new state. A call of the logger is recorded with
  its message (and its error, for \<^verbatim>\<open>Error\<close>); the \<^verbatim>\<open>lager.Data\<close> it is given is not.
\<close>

record 'w reaper_deps =
  GetAllTasksByCellID :: "string \<Rightarrow> 'w \<Rightarrow> (error + task list) \<times> 'w"
  GetContainer :: "string \<Rightarrow> 'w \<Rightarrow> (error + container) \<times> 'w"
  CompleteTask :: "string \<Rightarrow> bool \<Rightarrow> string \<Rightarrow> string \<Rightarrow> 'w \<Rightarrow> error option \<times> 'w"

record taskReaper =
  pollInterval :: int
  cellID :: string

definition log_info :: "string \<Rightarrow> call" where
  "log_info msg = Call ''logger.Info'' [Str msg]"

definition log_error :: "string \<Rightarrow> error \<Rightarrow> call" where
  "log_error msg e = Call ''logger.Error'' [Str msg, Err e]"

text \<open>The body of \<^verbatim>\<open>for _, task := range tasks\<close> (lines 60-79) for one task.\<close>

definition reap_task :: "'w reaper_deps \<Rightarrow> task \<Rightarrow> 'w \<Rightarrow> 'w \<times> call list" where
  "reap_task d t w =
     (if State t \<noteq> TaskStateClaimed \<and> State t \<noteq> TaskStateRunning then (w, [])
      else
        (case GetContainer d (TaskGuid t) w of
           (Inl err, w1) \<Rightarrow>
             (if err = ErrContainerNotFound then
                (case CompleteTask d (TaskGuid t) True ''task container no longer exists'' [] w1 of
                   (Some err2, w2) \<Rightarrow>
                     (w2, [log_info ''reaper-finding-container-for-task'',
                           Call ''GetContainer'' [Str (TaskGuid t)],
                           log_info ''reaper-found-no-container-for-task'',
                           log_info ''reaper-marking-containerless-task-as-failed'',
                           Call ''CompleteTask''
                             [Str (TaskGuid t), Bool True, Str ''task container no longer exists'', Str []],
                           log_error ''reaper-failed-to-mark-containerless-task-as-failed'' err2])
                 | (None, w2) \<Rightarrow>
                     (w2, [log_info ''reaper-finding-container-for-task'',
                           Call ''GetContainer'' [Str (TaskGuid t)],
                           log_info ''reaper-found-no-container-for-task'',
                           log_info ''reaper-marking-containerless-task-as-failed'',
                           Call ''CompleteTask''
                             [Str (TaskGuid t), Bool True, Str ''task container no longer exists'', Str []]]))
              else
                (w1, [log_info ''reaper-finding-container-for-task'',
                      Call ''GetContainer'' [Str (TaskGuid t)],
                      log_error ''reaper-failed-to-determine-container-existence-for-task'' err]))
         | (Inr c, w1) \<Rightarrow>
             (w1, [log_info ''reaper-finding-container-for-task'',
                   Call ''GetContainer'' [Str (TaskGuid t)]])))"

fun reap_tasks :: "'w reaper_deps \<Rightarrow> task list \<Rightarrow> 'w \<Rightarrow> 'w \<times> call list" where
  "reap_tasks d [] w = (w, [])"
| "reap_tasks d (t # ts) w =
     (case reap_task d t w of (w1, c1) \<Rightarrow>
        (case reap_tasks d ts w1 of (w2, c2) \<Rightarrow> (w2, c1 @ c2)))"

text \<open>One iteration of \<^verbatim>\<open>case <-ticks:\<close> (lines 50-81).\<close>

definition tick :: "'w reaper_deps \<Rightarrow> taskReaper \<Rightarrow> 'w \<Rightarrow> 'w \<times> call list" where
  "tick d r w =
     (case GetAllTasksByCellID d (cellID r) w of
        (Inl err, w1) \<Rightarrow>
          (w1, [log_info ''reaper-entering-loop'',
                log_info ''reaper-getting-tasks-by-cell-id'',
                Call ''GetAllTasksByCellID'' [Str (cellID r)],
                log_error ''reaper-failed-to-get-tasks-by-cell-id'' err])
      | (Inr tasks, w1) \<Rightarrow>
          (case reap_tasks d tasks w1 of (w2, cs) \<Rightarrow>
             (w2, [log_info ''reaper-entering-loop'',
                   log_info ''reaper-getting-tasks-by-cell-id'',
                   Call ''GetAllTasksByCellID'' [Str (cellID r)]]
                  @ cs @ [log_info ''reaper-exiting-loop''])))"

text \<open>
  \<^verbatim>\<open>Run\<close>: the \<^verbatim>\<open>select\<close> of each loop round receives either a tick or a signal; the list
  gives what the successive rounds receive. The result is \<open>Some None\<close> when \<open>Run\<close> has
  returned \<^verbatim>\<open>nil\<close>, \<open>Some (Some e)\<close> when it has returned the error \<open>e\<close>, and \<open>None\<close> when
  the events are used up and \<open>Run\<close> is still waiting in \<^verbatim>\<open>select\<close>.
\<close>

datatype event = Tick | Signal

fun run_loop ::
  "'w reaper_deps \<Rightarrow> taskReaper \<Rightarrow> event list \<Rightarrow> 'w \<Rightarrow> error option option \<times> 'w \<times> call list" where
  "run_loop d r [] w = (None, w, [])"
| "run_loop d r (Signal # evs) w = (Some None, w, [])"
| "run_loop d r (Tick # evs) w =
     (case tick d r w of (w1, c1) \<Rightarrow>
        (case run_loop d r evs w1 of (res, w2, c2) \<Rightarrow> (res, w2, c1 @ c2)))"

definition Run ::
  "'w reaper_deps \<Rightarrow> taskReaper \<Rightarrow> event list \<Rightarrow> 'w \<Rightarrow> error option option \<times> 'w \<times> call list" where
  "Run d r evs w =
     (case run_loop d r evs w of (res, w1, cs) \<Rightarrow>
        (res, w1, [Call ''close'' [Str ''ready''], Call ''timer.Every'' [Dur (pollInterval r)]] @ cs))"

section \<open>Reference store and executor\<close>

text \<open>
  Modelled from the spec: the store and the executor are external services and their code
  is not part of the repository. Where a property speaks of the task record after a call,
  it is read in this reference world, which follows sections 3, 5 and 6 of the
  specification: the store holds the task records, the executor the containers of this
  cell by guid.
\<close>

record world =
  store :: "task list"
  executor :: "string \<rightharpoonup> container"

text \<open>
  What the outside decides in one pass: whether the store can be reached for a read, a
  claim or a completion (section 7, "transient transport"), whether the executor accepts
  the run (section 4.1, "returns false on refusal") and what reading the result file
  gives.
\<close>

record conditions =
  lookup_ok :: bool
  start_ok :: bool
  complete_ok :: bool
  run_ok :: bool
  fetch_reply :: "error + string"

definition store_lookup :: "task list \<Rightarrow> string \<Rightarrow> task option" where
  "store_lookup ts g = find (\<lambda>t. TaskGuid t = g) ts"

text \<open>
  Modelled from the spec: \<^verbatim>\<open>complete_task\<close> "fails if the task is already Completed"
  (section 5) and sets \<open>failed\<close>, \<open>failure_reason\<close> and \<open>result\<close> (section 3).
\<close>

definition completable :: "task \<Rightarrow> bool" where
  "completable t \<longleftrightarrow>
     State t = TaskStatePending \<or> State t = TaskStateClaimed \<or> State t = TaskStateRunning"

definition completed :: "bool \<Rightarrow> string \<Rightarrow> string \<Rightarrow> task \<Rightarrow> task" where
  "completed failed reason result t =
     t\<lparr>State := TaskStateCompleted, Failed := failed, FailureReason := reason, Result := result\<rparr>"

text \<open>
  Modelled from the spec: the store behind the reaper. \<^verbatim>\<open>get_all_tasks_by_cell_id\<close> lists
  the tasks whose \<open>cell_id\<close> is the given one; \<^verbatim>\<open>CompleteTask\<close> as the reaper calls it
  carries no cell identifier, so only the task's state decides; \<^verbatim>\<open>get_container\<close>
  answers with the distinguished not-found error for a guid the executor does not hold.
\<close>

definition ref_GetAllTasksByCellID ::
  "conditions \<Rightarrow> string \<Rightarrow> world \<Rightarrow> (error + task list) \<times> world" where
  "ref_GetAllTasksByCellID c cell w =
     (if lookup_ok c then (Inr (filter (\<lambda>t. CellID t = cell) (store w)), w)
      else (Inl (OtherError ''store unavailable''), w))"

definition ref_GetContainer :: "string \<Rightarrow> world \<Rightarrow> (error + container) \<times> world" where
  "ref_GetContainer g w =
     (case executor w g of None \<Rightarrow> (Inl ErrContainerNotFound, w) | Some k \<Rightarrow> (Inr k, w))"

definition ref_CompleteTask ::
  "conditions \<Rightarrow> string \<Rightarrow> bool \<Rightarrow> string \<Rightarrow> string \<Rightarrow> world \<Rightarrow> error option \<times> world" where
  "ref_CompleteTask c g failed reason result w =
     (if \<not> complete_ok c then (Some (OtherError ''store unavailable''), w)
      else
        (case store_lookup (store w) g of
           None \<Rightarrow> (Some ErrStoreResourceNotFound, w)
         | Some t \<Rightarrow>
             (if completable t then
                (None, w\<lparr>store := map (\<lambda>u. if TaskGuid u = g \<and> completable u
                                            then completed failed reason result u else u) (store w)\<rparr>)
              else (Some (OtherError ''invalid state transition''), w))))"

definition ref_reaper_deps :: "conditions \<Rightarrow> world reaper_deps" where
  "ref_reaper_deps c =
     \<lparr>GetAllTasksByCellID = ref_GetAllTasksByCellID c,
      GetContainer = ref_GetContainer,
      CompleteTask = ref_CompleteTask c\<rparr>"

text \<open>\<open>n\<close> whole iterations of the tick branch, one after the other.\<close>

fun ticks :: "'w reaper_deps \<Rightarrow> taskReaper \<Rightarrow> nat \<Rightarrow> 'w \<Rightarrow> 'w \<times> call list" where
  "ticks d r 0 w = (w, [])"
| "ticks d r (Suc n) w =
     (case tick d r w of (w1, c1) \<Rightarrow>
        (case ticks d r n w1 of (w2, c2) \<Rightarrow> (w2, c1 @ c2)))"

section \<open>Values of the literal scenarios\<close>

text \<open>The reaper scenario of the specification (section 8, scenario 6).\<close>


definition task6 :: task where "task6 = \<lparr>TaskGuid = ''g6'', CellID = ''A'', State = TaskStateRunning, Failed = False,
   FailureReason = [], Result = [], ResultFile = []\<rparr>"
definition w6 :: world where "w6 = \<lparr>store = [task6], executor = Map.empty\<rparr>"
definition all_ok :: conditions where "all_ok = \<lparr>lookup_ok = True, start_ok = True, complete_ok = True, run_ok = True, fetch_reply = Inr ''payload''\<rparr>"
definition reaperA :: taskReaper where "reaperA = \<lparr>pollInterval = 30, cellID = ''A''\<rparr>"

text \<open>The names of the calls that occur in the text of \<^verbatim>\<open>Run\<close>.\<close>

definition reaper_call_names :: "string set" where
  "reaper_call_names =
     {''close'', ''timer.Every'', ''logger.Info'', ''logger.Error'',
      ''GetAllTasksByCellID'', ''GetContainer'', ''CompleteTask''}"

text \<open>A pass during which the store cannot be reached.\<close>

definition store_down :: conditions where
  "store_down = \<lparr>lookup_ok = False, start_ok = False, complete_ok = False, run_ok = True,
                 fetch_reply = Inr ''payload''\<rparr>"

text \<open>A pass during which the store lists tasks but refuses completions.\<close>

definition complete_down :: conditions where
  "complete_down = \<lparr>lookup_ok = True, start_ok = True, complete_ok = False, run_ok = True,
                    fetch_reply = Inr ''payload''\<rparr>"

section \<open>The task processor\<close>

text \<open>
  Modelled from the spec: the task processor (\<^verbatim>\<open>internal.TaskProcessor\<close>, its
  \<^verbatim>\<open>Process\<close> method) and the container delegate are not among the source files; only
  the table-driven test of the processor is. The model follows section 4.2 of the
  specification: load the store task by the container's guid, then act by the decision
  table. The store and the delegate are the capability sets of section 6, taken as
  parameters like the reaper's collaborators; \<^verbatim>\<open>start_task\<close> returns
  \<open>(changed, err)\<close>.
\<close>

record 'w processor_deps =
  task_by_guid :: "string \<Rightarrow> 'w \<Rightarrow> (error + task) \<times> 'w"
  start_task :: "string \<Rightarrow> string \<Rightarrow> 'w \<Rightarrow> (bool \<times> error option) \<times> 'w"
  complete_task :: "string \<Rightarrow> string \<Rightarrow> bool \<Rightarrow> string \<Rightarrow> string \<Rightarrow> 'w \<Rightarrow> error option \<times> 'w"
  run_container :: "string \<Rightarrow> 'w \<Rightarrow> bool \<times> 'w"
  stop_container :: "string \<Rightarrow> 'w \<Rightarrow> bool \<times> 'w"
  delete_container :: "string \<Rightarrow> 'w \<Rightarrow> bool \<times> 'w"
  fetch_container_result_file :: "string \<Rightarrow> string \<Rightarrow> 'w \<Rightarrow> (error + string) \<times> 'w"

text \<open>The configuration of section 6.3 that the processor reads.\<close>

record task_processor =
  local_cell_id :: string
  result_file_tag_key :: string

text \<open>
  Modelled from the spec: the actions of the decision table of section 4.2, and the table
  itself, keyed on the container's state, the presence and state of the task and its
  owner. The owner check comes first ("whenever \<open>task.cell_id\<close> is set and differs from
  the local cell, the only legal local action is \<open>delete_container\<close>"), and deletion is
  the default for every shape the table does not progress.
\<close>

datatype action =
    Noop
  | DeleteContainer
  | ClaimAndRun
  | ClaimOnly
  | FailInvalidTransition
  | CompleteFromRunResult

fun pending_row :: "container_state \<Rightarrow> action" where
  "pending_row StateReserved = ClaimAndRun"
| "pending_row StateInitializing = ClaimAndRun"
| "pending_row StateCreated = ClaimOnly"
| "pending_row StateRunning = ClaimOnly"
| "pending_row StateCompleted = FailInvalidTransition"

fun running_local_row :: "container_state \<Rightarrow> action" where
  "running_local_row StateCompleted = CompleteFromRunResult"
| "running_local_row cs = Noop"

definition decide :: "string \<Rightarrow> container_state \<Rightarrow> task option \<Rightarrow> action" where
  "decide cell cs found =
     (case found of
        None \<Rightarrow> DeleteContainer
      | Some t \<Rightarrow>
          (if CellID t \<noteq> [] \<and> CellID t \<noteq> cell then DeleteContainer
           else if State t = TaskStatePending then pending_row cs
           else if State t = TaskStateRunning \<and> CellID t = cell then running_local_row cs
           else DeleteContainer))"

text \<open>
  Modelled from the spec: the claim of the Pending rows. \<^verbatim>\<open>start_task\<close> comes first;
  only when it answers \<open>changed\<close> without error is the container run (Reserved and
  Initializing) and, if the run is refused, the task completed as failed with
  "failed to run container". A refused claim deletes the container; a store error is a
  transient failure of section 7 and the row is skipped until the next pass.
\<close>

definition claim ::
  "'w processor_deps \<Rightarrow> task_processor \<Rightarrow> bool \<Rightarrow> string \<Rightarrow> 'w \<Rightarrow> 'w \<times> call list" where
  "claim d p run g w =
     (case start_task d g (local_cell_id p) w of
        ((changed, Some e), w1) \<Rightarrow> (w1, [Call ''start_task'' [Str g, Str (local_cell_id p)]])
      | ((False, None), w1) \<Rightarrow>
          (case delete_container d g w1 of
             (ok, w2) \<Rightarrow>
               (w2, [Call ''start_task'' [Str g, Str (local_cell_id p)],
                     Call ''delete_container'' [Str g]]))
      | ((True, None), w1) \<Rightarrow>
          (if \<not> run then (w1, [Call ''start_task'' [Str g, Str (local_cell_id p)]])
           else
             (case run_container d g w1 of
                (True, w2) \<Rightarrow>
                  (w2, [Call ''start_task'' [Str g, Str (local_cell_id p)],
                        Call ''run_container'' [Str g]])
              | (False, w2) \<Rightarrow>
                  (case complete_task d g (local_cell_id p) True ''failed to run container'' [] w2 of
                     (err, w3) \<Rightarrow>
                       (w3, [Call ''start_task'' [Str g, Str (local_cell_id p)],
                             Call ''run_container'' [Str g],
                             Call ''complete_task''
                               [Str g, Str (local_cell_id p), Bool True,
                                Str ''failed to run container'', Str []]])))))"

text \<open>
  Modelled from the spec: completing the task of a Completed container and deleting the
  container "always". \<open>tags[result_file]\<close> of a container without that tag is the empty
  path.
\<close>

definition complete_and_delete ::
  "'w processor_deps \<Rightarrow> task_processor \<Rightarrow> string \<Rightarrow> bool \<Rightarrow> string \<Rightarrow> string \<Rightarrow> 'w \<Rightarrow> 'w \<times> call list" where
  "complete_and_delete d p g failed reason result w =
     (case complete_task d g (local_cell_id p) failed reason result w of
        (err, w1) \<Rightarrow>
          (case delete_container d g w1 of
             (ok, w2) \<Rightarrow>
               (w2, [Call ''complete_task''
                       [Str g, Str (local_cell_id p), Bool failed, Str reason, Str result],
                     Call ''delete_container'' [Str g]])))"

definition result_file_path :: "task_processor \<Rightarrow> container \<Rightarrow> string" where
  "result_file_path p k = (case Tags k (result_file_tag_key p) of None \<Rightarrow> [] | Some path \<Rightarrow> path)"

fun perform ::
  "'w processor_deps \<Rightarrow> task_processor \<Rightarrow> container \<Rightarrow> action \<Rightarrow> 'w \<Rightarrow> 'w \<times> call list" where
  "perform d p k Noop w = (w, [])"
| "perform d p k DeleteContainer w =
     (case delete_container d (Guid k) w of
        (ok, w1) \<Rightarrow> (w1, [Call ''delete_container'' [Str (Guid k)]]))"
| "perform d p k ClaimAndRun w = claim d p True (Guid k) w"
| "perform d p k ClaimOnly w = claim d p False (Guid k) w"
| "perform d p k FailInvalidTransition w =
     complete_and_delete d p (Guid k) True ''invalid state transition'' [] w"
| "perform d p k CompleteFromRunResult w =
     (if RunFailed (RunResult k) then
        complete_and_delete d p (Guid k) True (RunFailureReason (RunResult k)) [] w
      else
        (case fetch_container_result_file d (Guid k) (result_file_path p k) w of
           (Inr text, w1) \<Rightarrow>
             (case complete_and_delete d p (Guid k) False [] text w1 of
                (w2, cs) \<Rightarrow>
                  (w2, Call ''fetch_container_result_file'' [Str (Guid k), Str (result_file_path p k)] # cs))
         | (Inl e, w1) \<Rightarrow>
             (case complete_and_delete d p (Guid k) True ''failed to fetch result'' [] w1 of
                (w2, cs) \<Rightarrow>
                  (w2, Call ''fetch_container_result_file'' [Str (Guid k), Str (result_file_path p k)] # cs))))"

text \<open>
  Modelled from the spec: \<^verbatim>\<open>process(container)\<close>. The store's "not found" is the missing
  task of the table; any other error of \<^verbatim>\<open>task_by_guid\<close> is transient and the container
  is left for the next pass.
\<close>

definition process ::
  "'w processor_deps \<Rightarrow> task_processor \<Rightarrow> container \<Rightarrow> 'w \<Rightarrow> 'w \<times> call list" where
  "process d p k w =
     (case task_by_guid d (Guid k) w of
        (Inl e, w1) \<Rightarrow>
          (if e = ErrStoreResourceNotFound then
             (case perform d p k (decide (local_cell_id p) (ContainerState k) None) w1 of
                (w2, cs) \<Rightarrow> (w2, Call ''task_by_guid'' [Str (Guid k)] # cs))
           else (w1, [Call ''task_by_guid'' [Str (Guid k)]]))
      | (Inr t, w1) \<Rightarrow>
          (case perform d p k (decide (local_cell_id p) (ContainerState k) (Some t)) w1 of
             (w2, cs) \<Rightarrow> (w2, Call ''task_by_guid'' [Str (Guid k)] # cs)))"

text \<open>
  Modelled from the spec: the store and the delegate of the reference world (sections
  4.1, 5 and 6). \<^verbatim>\<open>start_task\<close> claims a Pending task for the cell and answers
  \<open>changed = false\<close> for a task in any other state; \<^verbatim>\<open>complete_task\<close> rejects a task
  that is already Completed and a cell that is not the owner (a Pending task has no owner
  yet: the table completes it in the row Completed/Pending, and the test of that row
  expects the completion to take effect); \<^verbatim>\<open>delete_container\<close> removes the container and
  answers whether there was one; running does not change what the executor holds.
\<close>

definition ref_task_by_guid :: "conditions \<Rightarrow> string \<Rightarrow> world \<Rightarrow> (error + task) \<times> world" where
  "ref_task_by_guid c g w =
     (if \<not> lookup_ok c then (Inl (OtherError ''store unavailable''), w)
      else (case store_lookup (store w) g of
              None \<Rightarrow> (Inl ErrStoreResourceNotFound, w)
            | Some t \<Rightarrow> (Inr t, w)))"

definition started :: "string \<Rightarrow> task \<Rightarrow> task" where
  "started cell t = t\<lparr>CellID := cell, State := TaskStateRunning\<rparr>"

definition ref_start_task ::
  "conditions \<Rightarrow> string \<Rightarrow> string \<Rightarrow> world \<Rightarrow> (bool \<times> error option) \<times> world" where
  "ref_start_task c g cell w =
     (if \<not> start_ok c then ((False, Some (OtherError ''store unavailable'')), w)
      else (case store_lookup (store w) g of
              None \<Rightarrow> ((False, Some ErrStoreResourceNotFound), w)
            | Some t \<Rightarrow>
                (if State t = TaskStatePending then
                   ((True, None),
                    w\<lparr>store := map (\<lambda>u. if TaskGuid u = g \<and> State u = TaskStatePending
                                         then started cell u else u) (store w)\<rparr>)
                 else ((False, None), w))))"

definition owned_or_free :: "string \<Rightarrow> task \<Rightarrow> bool" where
  "owned_or_free cell t \<longleftrightarrow> CellID t = [] \<or> CellID t = cell"

definition ref_complete_task ::
  "conditions \<Rightarrow> string \<Rightarrow> string \<Rightarrow> bool \<Rightarrow> string \<Rightarrow> string \<Rightarrow> world \<Rightarrow> error option \<times> world" where
  "ref_complete_task c g cell failed reason result w =
     (if \<not> complete_ok c then (Some (OtherError ''store unavailable''), w)
      else (case store_lookup (store w) g of
              None \<Rightarrow> (Some ErrStoreResourceNotFound, w)
            | Some t \<Rightarrow>
                (if completable t \<and> owned_or_free cell t then
                   (None,
                    w\<lparr>store := map (\<lambda>u. if TaskGuid u = g \<and> completable u \<and> owned_or_free cell u
                                         then completed failed reason result u else u) (store w)\<rparr>)
                 else (Some (OtherError ''invalid state transition''), w))))"

definition ref_delete_container :: "string \<Rightarrow> world \<Rightarrow> bool \<times> world" where
  "ref_delete_container g w = (executor w g \<noteq> None, w\<lparr>executor := (executor w)(g := None)\<rparr>)"

definition ref_processor_deps :: "conditions \<Rightarrow> world processor_deps" where
  "ref_processor_deps c =
     \<lparr>task_by_guid = ref_task_by_guid c,
      start_task = ref_start_task c,
      complete_task = ref_complete_task c,
      run_container = (\<lambda>g w. (run_ok c, w)),
      stop_container = (\<lambda>g w. (executor w g \<noteq> None, w)),
      delete_container = ref_delete_container,
      fetch_container_result_file = (\<lambda>g path w. (fetch_reply c, w))\<rparr>"

text \<open>
  Values for the rows of the table-driven test and the literal scenarios of the
  specification: a container and a task of a given guid, and the world that holds them.
\<close>

definition scenario_container :: "string \<Rightarrow> container_state \<Rightarrow> container" where
  "scenario_container g cs =
     \<lparr>Guid = g, ContainerState = cs,
      RunResult = \<lparr>RunFailed = False, RunFailureReason = []\<rparr>,
      Tags = [''result_file'' \<mapsto> ''/out'']\<rparr>"

definition scenario_completed_container :: "string \<Rightarrow> container_run_result \<Rightarrow> container" where
  "scenario_completed_container g rr = (scenario_container g StateCompleted)\<lparr>RunResult := rr\<rparr>"

definition scenario_task :: "string \<Rightarrow> string \<Rightarrow> task_state \<Rightarrow> task" where
  "scenario_task g cell st =
     \<lparr>TaskGuid = g, CellID = cell, State = st, Failed = False, FailureReason = [],
      Result = [], ResultFile = ''/out''\<rparr>"

definition processorA :: task_processor where
  "processorA = \<lparr>local_cell_id = ''A'', result_file_tag_key = ''result_file''\<rparr>"

definition world_of :: "task \<Rightarrow> container \<Rightarrow> world" where
  "world_of t k = \<lparr>store = [t], executor = [Guid k \<mapsto> k]\<rparr>"

text \<open>A pass during which the executor refuses to run the container.\<close>

definition run_refused :: conditions where
  "run_refused = \<lparr>lookup_ok = True, start_ok = True, complete_ok = True, run_ok = False,
                  fetch_reply = Inr ''payload''\<rparr>"

text \<open>A pass during which the store answers lookups but cannot be reached for a claim.\<close>

definition claim_down :: conditions where
  "claim_down = \<lparr>lookup_ok = True, start_ok = False, complete_ok = True, run_ok = True,
                 fetch_reply = Inr ''payload''\<rparr>"

text \<open>A pass in which the result file of the container is empty.\<close>

definition empty_result_file :: conditions where
  "empty_result_file = \<lparr>lookup_ok = True, start_ok = True, complete_ok = True, run_ok = True,
                        fetch_reply = Inr []\<rparr>"

section \<open>Properties of the reaper\<close>

lemmas ref_reaper_simps =
  ref_reaper_deps_def ref_GetAllTasksByCellID_def ref_GetContainer_def ref_CompleteTask_def
  store_lookup_def completable_def completed_def
lemmas scenario6_defs = task6_def w6_def all_ok_def reaperA_def

lemma reap_tasks_append:
  "reap_tasks d (xs @ ys) w =
     (case reap_tasks d xs w of (w1, c1) \<Rightarrow>
        (case reap_tasks d ys w1 of (w2, c2) \<Rightarrow> (w2, c1 @ c2)))"
  by (induction xs arbitrary: w) (auto split: prod.splits)

lemma reap_tasks_split:
  "snd (reap_tasks d (pre @ t # post) w) =
     snd (reap_tasks d pre w)
     @ snd (reap_task d t (fst (reap_tasks d pre w)))
     @ snd (reap_tasks d post (fst (reap_task d t (fst (reap_tasks d pre w)))))"
  by (simp add: reap_tasks_append split: prod.splits)

lemma tick_listed:
  "GetAllTasksByCellID d (cellID r) w = (Inr ts, w0) \<Longrightarrow>
   snd (tick d r w) =
     [log_info ''reaper-entering-loop'', log_info ''reaper-getting-tasks-by-cell-id'',
      Call ''GetAllTasksByCellID'' [Str (cellID r)]]
     @ snd (reap_tasks d ts w0) @ [log_info ''reaper-exiting-loop'']"
  by (simp add: tick_def split: prod.splits)

lemma reap_task_complete_iff:
  "(\<exists>as. Call ''CompleteTask'' as \<in> set (snd (reap_task d t w))) \<longleftrightarrow>
   ((State t = TaskStateClaimed \<or> State t = TaskStateRunning) \<and>
    fst (GetContainer d (TaskGuid t) w) = Inl ErrContainerNotFound)"
  by (auto simp: reap_task_def log_info_def log_error_def split: prod.splits sum.splits option.splits)

lemma reap_task_other_error:
  "State t = TaskStateClaimed \<or> State t = TaskStateRunning \<Longrightarrow>
   GetContainer d (TaskGuid t) w = (Inl e, w1) \<Longrightarrow> e \<noteq> ErrContainerNotFound \<Longrightarrow>
   reap_task d t w = (w1, [log_info ''reaper-finding-container-for-task'',
                      Call ''GetContainer'' [Str (TaskGuid t)],
                      log_error ''reaper-failed-to-determine-container-existence-for-task'' e])"
  by (auto simp: reap_task_def)

lemma reap_task_skip:
  "State t \<noteq> TaskStateClaimed \<Longrightarrow> State t \<noteq> TaskStateRunning \<Longrightarrow> reap_task d t w = (w, [])"
  by (simp add: reap_task_def)

lemma reap_task_not_found:
  "State t = TaskStateClaimed \<or> State t = TaskStateRunning \<Longrightarrow>
   GetContainer d (TaskGuid t) w = (Inl ErrContainerNotFound, w1) \<Longrightarrow>
   reap_task d t w =
     (snd (CompleteTask d (TaskGuid t) True ''task container no longer exists'' [] w1),
      [log_info ''reaper-finding-container-for-task'',
       Call ''GetContainer'' [Str (TaskGuid t)],
       log_info ''reaper-found-no-container-for-task'',
       log_info ''reaper-marking-containerless-task-as-failed'',
       Call ''CompleteTask''
         [Str (TaskGuid t), Bool True, Str ''task container no longer exists'', Str []]]
      @ (case fst (CompleteTask d (TaskGuid t) True ''task container no longer exists'' [] w1) of
           None \<Rightarrow> []
         | Some e2 \<Rightarrow> [log_error ''reaper-failed-to-mark-containerless-task-as-failed'' e2]))"
  by (auto simp: reap_task_def split: prod.splits option.splits)

lemma reap_task_container_found:
  "State t = TaskStateClaimed \<or> State t = TaskStateRunning \<Longrightarrow>
   GetContainer d (TaskGuid t) w = (Inr k, w1) \<Longrightarrow>
   reap_task d t w =
     (w1, [log_info ''reaper-finding-container-for-task'', Call ''GetContainer'' [Str (TaskGuid t)]])"
  by (auto simp: reap_task_def)

lemma tick_listed_world_split:
  "GetAllTasksByCellID d (cellID r) w = (Inr (pre @ t # post), w0) \<Longrightarrow>
   fst (tick d r w) =
     fst (reap_tasks d post (fst (reap_task d t (fst (reap_tasks d pre w0)))))"
  by (simp add: tick_def reap_tasks_append split: prod.splits)

text \<open>
  C5. Within one tick whose listing succeeded, the calls made for a listed task contain a
  \<^verbatim>\<open>CompleteTask\<close> exactly when the task is Claimed or Running and \<^verbatim>\<open>GetContainer\<close> for
  its guid returned the distinguished value \<open>ErrContainerNotFound\<close> (any other error
  value, whatever its text, is a different value). In that case the store's
  \<^verbatim>\<open>CompleteTask\<close> is invoked, on the world \<^verbatim>\<open>GetContainer\<close> returned, with the task's
  guid, \<open>true\<close>, "task container no longer exists" and the empty result, the world goes on
  as the store returned it, and an error of the store is logged. On any other error the
  task is logged and skipped, the world being left as \<^verbatim>\<open>GetContainer\<close> returned it, and
  so it is, without a log, when the container exists; a task in any other state is
  skipped with no call at all. The world after the tick is the one the tasks listed after
  this one leave.
\<close>

theorem reaper_branching_discipline:
  assumes listed: "GetAllTasksByCellID d (cellID r) w = (Inr (pre @ t # post), w0)"
  shows "let wt = fst (reap_tasks d pre w0); ct = snd (reap_task d t wt) in
     snd (tick d r w) =
       [log_info ''reaper-entering-loop'', log_info ''reaper-getting-tasks-by-cell-id'',
        Call ''GetAllTasksByCellID'' [Str (cellID r)]]
       @ snd (reap_tasks d pre w0) @ ct
       @ snd (reap_tasks d post (fst (reap_task d t wt)))
       @ [log_info ''reaper-exiting-loop'']
     \<and> ((\<exists>as. Call ''CompleteTask'' as \<in> set ct) \<longleftrightarrow>
          (State t = TaskStateClaimed \<or> State t = TaskStateRunning) \<and>
          fst (GetContainer d (TaskGuid t) wt) = Inl ErrContainerNotFound)
     \<and> (\<forall>e. (State t = TaskStateClaimed \<or> State t = TaskStateRunning) \<and>
             fst (GetContainer d (TaskGuid t) wt) = Inl e \<and> e \<noteq> ErrContainerNotFound \<longrightarrow>
             reap_task d t wt =
               (snd (GetContainer d (TaskGuid t) wt),
                [log_info ''reaper-finding-container-for-task'',
                 Call ''GetContainer'' [Str (TaskGuid t)],
                 log_error ''reaper-failed-to-determine-container-existence-for-task'' e]))
     \<and> (State t \<noteq> TaskStateClaimed \<and> State t \<noteq> TaskStateRunning \<longrightarrow> reap_task d t wt = (wt, []))
     \<and> ((State t = TaskStateClaimed \<or> State t = TaskStateRunning) \<and>
         fst (GetContainer d (TaskGuid t) wt) = Inl ErrContainerNotFound \<longrightarrow>
         reap_task d t wt =
           (snd (CompleteTask d (TaskGuid t) True ''task container no longer exists'' []
                   (snd (GetContainer d (TaskGuid t) wt))),
            [log_info ''reaper-finding-container-for-task'',
             Call ''GetContainer'' [Str (TaskGuid t)],
             log_info ''reaper-found-no-container-for-task'',
             log_info ''reaper-marking-containerless-task-as-failed'',
             Call ''CompleteTask''
               [Str (TaskGuid t), Bool True, Str ''task container no longer exists'', Str []]]
            @ (case fst (CompleteTask d (TaskGuid t) True ''task container no longer exists'' []
                           (snd (GetContainer d (TaskGuid t) wt))) of
                 None \<Rightarrow> []
               | Some e2 \<Rightarrow> [log_error ''reaper-failed-to-mark-containerless-task-as-failed'' e2])))
     \<and> (\<forall>k. (State t = TaskStateClaimed \<or> State t = TaskStateRunning) \<and>
             fst (GetContainer d (TaskGuid t) wt) = Inr k \<longrightarrow>
             reap_task d t wt =
               (snd (GetContainer d (TaskGuid t) wt),
                [log_info ''reaper-finding-container-for-task'',
                 Call ''GetContainer'' [Str (TaskGuid t)]]))
     \<and> fst (tick d r w) = fst (reap_tasks d post (fst (reap_task d t wt)))"
proof -
  define wt where "wt = fst (reap_tasks d pre w0)"
  have nf: "reap_task d t wt =
           (snd (CompleteTask d (TaskGuid t) True ''task container no longer exists'' []
                   (snd (GetContainer d (TaskGuid t) wt))),
            [log_info ''reaper-finding-container-for-task'',
             Call ''GetContainer'' [Str (TaskGuid t)],
             log_info ''reaper-found-no-container-for-task'',
             log_info ''reaper-marking-containerless-task-as-failed'',
             Call ''CompleteTask''
               [Str (TaskGuid t), Bool True, Str ''task container no longer exists'', Str []]]
            @ (case fst (CompleteTask d (TaskGuid t) True ''task container no longer exists'' []
                           (snd (GetContainer d (TaskGuid t) wt))) of
                 None \<Rightarrow> []
               | Some e2 \<Rightarrow> [log_error ''reaper-failed-to-mark-containerless-task-as-failed'' e2]))"
    if "State t = TaskStateClaimed \<or> State t = TaskStateRunning"
      and "fst (GetContainer d (TaskGuid t) wt) = Inl ErrContainerNotFound"
  proof -
    from that(2) have "GetContainer d (TaskGuid t) wt =
        (Inl ErrContainerNotFound, snd (GetContainer d (TaskGuid t) wt))"
      by (simp add: prod_eq_iff)
    from reap_task_not_found [OF that(1) this] show ?thesis .
  qed
  have fd: "reap_task d t wt =
               (snd (GetContainer d (TaskGuid t) wt),
                [log_info ''reaper-finding-container-for-task'',
                 Call ''GetContainer'' [Str (TaskGuid t)]])"
    if "State t = TaskStateClaimed \<or> State t = TaskStateRunning"
      and "fst (GetContainer d (TaskGuid t) wt) = Inr k" for k
  proof -
    from that(2) have "GetContainer d (TaskGuid t) wt = (Inr k, snd (GetContainer d (TaskGuid t) wt))"
      by (simp add: prod_eq_iff)
    from reap_task_container_found [OF that(1) this] show ?thesis .
  qed
  have wd: "fst (tick d r w) = fst (reap_tasks d post (fst (reap_task d t wt)))"
    by (simp add: tick_listed_world_split [OF listed] wt_def)
  have calls: "snd (tick d r w) =
       [log_info ''reaper-entering-loop'', log_info ''reaper-getting-tasks-by-cell-id'',
        Call ''GetAllTasksByCellID'' [Str (cellID r)]]
       @ snd (reap_tasks d pre w0) @ snd (reap_task d t wt)
       @ snd (reap_tasks d post (fst (reap_task d t wt)))
       @ [log_info ''reaper-exiting-loop'']"
    by (simp add: tick_listed [OF listed] reap_tasks_split wt_def)
  have other: "reap_task d t wt =
               (snd (GetContainer d (TaskGuid t) wt),
                [log_info ''reaper-finding-container-for-task'',
                 Call ''GetContainer'' [Str (TaskGuid t)],
                 log_error ''reaper-failed-to-determine-container-existence-for-task'' e])"
    if "State t = TaskStateClaimed \<or> State t = TaskStateRunning"
      and "fst (GetContainer d (TaskGuid t) wt) = Inl e" and "e \<noteq> ErrContainerNotFound" for e
    using that reap_task_other_error [of t d wt e "snd (GetContainer d (TaskGuid t) wt)"]
    by (metis prod.collapse)
  have iff: "(\<exists>as. Call ''CompleteTask'' as \<in> set (snd (reap_task d t wt))) \<longleftrightarrow>
          (State t = TaskStateClaimed \<or> State t = TaskStateRunning) \<and>
          fst (GetContainer d (TaskGuid t) wt) = Inl ErrContainerNotFound"
    by (rule reap_task_complete_iff)
  have skip: "State t \<noteq> TaskStateClaimed \<and> State t \<noteq> TaskStateRunning \<longrightarrow> reap_task d t wt = (wt, [])"
    by (simp add: reap_task_skip)
  show ?thesis
    unfolding Let_def wt_def [symmetric]
    by (intro conjI allI impI; (elim conjE)?) (use calls iff other skip nf fd wd in \<open>blast+\<close>)
qed

theorem reaper_branching_discipline_witness:
  "GetAllTasksByCellID (ref_reaper_deps all_ok) (cellID reaperA) w6 = (Inr ([] @ task6 # []), w6)
   \<and> State task6 = TaskStateRunning
   \<and> fst (GetContainer (ref_reaper_deps all_ok) (TaskGuid task6) w6) = Inl ErrContainerNotFound
   \<and> snd (reap_task (ref_reaper_deps all_ok) task6 w6) =
       [log_info ''reaper-finding-container-for-task'',
        Call ''GetContainer'' [Str ''g6''],
        log_info ''reaper-found-no-container-for-task'',
        log_info ''reaper-marking-containerless-task-as-failed'',
        Call ''CompleteTask'' [Str ''g6'', Bool True, Str ''task container no longer exists'', Str []]]
   \<and> store (fst (reap_task (ref_reaper_deps all_ok) task6 w6)) =
       [\<lparr>TaskGuid = ''g6'', CellID = ''A'', State = TaskStateCompleted, Failed = True,
         FailureReason = ''task container no longer exists'', Result = [], ResultFile = []\<rparr>]"
proof -
  have h: "GetAllTasksByCellID (ref_reaper_deps all_ok) (cellID reaperA) w6 = (Inr ([] @ task6 # []), w6)"
    by (simp add: ref_reaper_simps scenario6_defs)
  have g: "fst (GetContainer (ref_reaper_deps all_ok) (TaskGuid task6)
                 (fst (reap_tasks (ref_reaper_deps all_ok) [] w6))) = Inl ErrContainerNotFound"
    by (simp add: ref_reaper_simps scenario6_defs)
  have s: "State task6 = TaskStateRunning" by (simp add: task6_def)
  note T = reaper_branching_discipline [OF h, unfolded Let_def]
  note nf = T [THEN conjunct2, THEN conjunct2, THEN conjunct2, THEN conjunct2, THEN conjunct1,
      THEN mp, OF conjI [OF disjI2 [OF s] g]]
  have c: "CompleteTask (ref_reaper_deps all_ok) (TaskGuid task6) True ''task container no longer exists'' []
        (snd (GetContainer (ref_reaper_deps all_ok) (TaskGuid task6) w6)) =
      (None, \<lparr>store = [\<lparr>TaskGuid = ''g6'', CellID = ''A'', State = TaskStateCompleted, Failed = True,
         FailureReason = ''task container no longer exists'', Result = [], ResultFile = []\<rparr>],
         executor = Map.empty\<rparr>)"
    by (simp add: ref_reaper_simps scenario6_defs)
  have tg: "TaskGuid task6 = ''g6''" by (simp add: task6_def)
  have r0: "fst (reap_tasks (ref_reaper_deps all_ok) [] w6) = w6" by simp
  from nf have "reap_task (ref_reaper_deps all_ok) task6 w6 =
      (\<lparr>store = [\<lparr>TaskGuid = ''g6'', CellID = ''A'', State = TaskStateCompleted, Failed = True,
         FailureReason = ''task container no longer exists'', Result = [], ResultFile = []\<rparr>],
         executor = Map.empty\<rparr>,
       [log_info ''reaper-finding-container-for-task'',
        Call ''GetContainer'' [Str ''g6''],
        log_info ''reaper-found-no-container-for-task'',
        log_info ''reaper-marking-containerless-task-as-failed'',
        Call ''CompleteTask'' [Str ''g6'', Bool True, Str ''task container no longer exists'', Str []]])"
    by (simp add: ref_reaper_simps scenario6_defs)
  with h s g show ?thesis by (simp only: r0 fst_conv snd_conv world.simps simp_thms)
qed

lemma reap_tasks_Cons:
  "reap_tasks d (t # ts) w =
     (fst (reap_tasks d ts (fst (reap_task d t w))),
      snd (reap_task d t w) @ snd (reap_tasks d ts (fst (reap_task d t w))))"
  by (simp split: prod.splits)

lemma run_loop_Tick:
  "run_loop d r (Tick # evs) w =
     (fst (run_loop d r evs (fst (tick d r w))),
      fst (snd (run_loop d r evs (fst (tick d r w)))),
      snd (tick d r w) @ snd (snd (run_loop d r evs (fst (tick d r w)))))"
  by (simp split: prod.splits)

lemma Run_run_loop:
  "Run d r evs w =
     (fst (run_loop d r evs w), fst (snd (run_loop d r evs w)),
      [Call ''close'' [Str ''ready''], Call ''timer.Every'' [Dur (pollInterval r)]]
      @ snd (snd (run_loop d r evs w)))"
  by (simp add: Run_def split: prod.splits)

lemma tick_listed_world:
  "GetAllTasksByCellID d (cellID r) w = (Inr ts, w0) \<Longrightarrow> fst (tick d r w) = fst (reap_tasks d ts w0)"
  by (simp add: tick_def split: prod.splits)

lemma tick_list_failed:
  "GetAllTasksByCellID d (cellID r) w = (Inl e, w1) \<Longrightarrow>
   tick d r w =
     (w1, [log_info ''reaper-entering-loop'', log_info ''reaper-getting-tasks-by-cell-id'',
           Call ''GetAllTasksByCellID'' [Str (cellID r)],
           log_error ''reaper-failed-to-get-tasks-by-cell-id'' e])"
  by (simp add: tick_def)

lemma reap_task_names: "call_name ` set (snd (reap_task d t w)) \<subseteq> reaper_call_names"
  by (auto simp: reap_task_def reaper_call_names_def log_info_def log_error_def
      split: prod.splits sum.splits option.splits)

lemma reap_tasks_names: "call_name ` set (snd (reap_tasks d ts w)) \<subseteq> reaper_call_names"
proof (induction ts arbitrary: w)
  case Nil
  show ?case by simp
next
  case (Cons t ts)
  from reap_task_names [of d t w] Cons.IH [of "fst (reap_task d t w)"]
  show ?case by (simp only: reap_tasks_Cons snd_conv set_append image_Un Un_subset_iff)
qed

lemma tick_names: "call_name ` set (snd (tick d r w)) \<subseteq> reaper_call_names"
proof (cases "GetAllTasksByCellID d (cellID r) w")
  case (Pair res w1)
  show ?thesis
  proof (cases res)
    case (Inl e)
    with Pair show ?thesis
      by (simp add: tick_list_failed reaper_call_names_def log_info_def log_error_def)
  next
    case (Inr ts)
    have "call_name ` set [log_info ''reaper-entering-loop'', log_info ''reaper-getting-tasks-by-cell-id'',
        Call ''GetAllTasksByCellID'' [Str (cellID r)]] \<subseteq> reaper_call_names"
      "call_name ` set [log_info ''reaper-exiting-loop''] \<subseteq> reaper_call_names"
      by (simp_all add: reaper_call_names_def log_info_def)
    with reap_tasks_names [of d ts w1] Pair Inr show ?thesis
      by (simp only: tick_listed set_append image_Un Un_subset_iff simp_thms)
  qed
qed

lemma run_loop_names: "call_name ` set (snd (snd (run_loop d r evs w))) \<subseteq> reaper_call_names"
proof (induction d r evs w rule: run_loop.induct)
  case (1 d r w)
  show ?case by simp
next
  case (2 d r evs w)
  show ?case by simp
next
  case (3 d r evs w)
  from "3.IH" [of "fst (tick d r w)" "snd (tick d r w)"] tick_names [of d r w]
  show ?case by (simp only: run_loop_Tick snd_conv set_append image_Un Un_subset_iff prod.collapse simp_thms)
qed

lemma ref_reap_task_executor: "executor (fst (reap_task (ref_reaper_deps c) t w)) = executor w"
  by (simp add: reap_task_def ref_reaper_simps split: option.splits)

lemma ref_reap_tasks_executor: "executor (fst (reap_tasks (ref_reaper_deps c) ts w)) = executor w"
proof (induction ts arbitrary: w)
  case Nil
  show ?case by simp
next
  case (Cons t ts)
  from Cons.IH [of "fst (reap_task (ref_reaper_deps c) t w)"] ref_reap_task_executor [of c t w]
  show ?case by (simp only: reap_tasks_Cons fst_conv)
qed

lemma ref_tick_executor: "executor (fst (tick (ref_reaper_deps c) r w)) = executor w"
proof (cases "lookup_ok c")
  case True
  then have "GetAllTasksByCellID (ref_reaper_deps c) (cellID r) w =
      (Inr (filter (\<lambda>t. CellID t = cellID r) (store w)), w)"
    by (simp add: ref_reaper_deps_def ref_GetAllTasksByCellID_def)
  from tick_listed_world [OF this] show ?thesis by (simp add: ref_reap_tasks_executor)
next
  case False
  then have "GetAllTasksByCellID (ref_reaper_deps c) (cellID r) w =
      (Inl (OtherError ''store unavailable''), w)"
    by (simp add: ref_reaper_deps_def ref_GetAllTasksByCellID_def)
  from tick_list_failed [OF this] show ?thesis by simp
qed

lemma ref_run_loop_executor: "executor (fst (snd (run_loop (ref_reaper_deps c) r evs w))) = executor w"
proof (induction evs arbitrary: w)
  case Nil
  show ?case by simp
next
  case (Cons e evs)
  show ?case
  proof (cases e)
    case Tick
    from Cons.IH [of "fst (tick (ref_reaper_deps c) r w)"] ref_tick_executor [of c r w] Tick
    show ?thesis by (simp only: run_loop_Tick fst_conv snd_conv)
  next
    case Signal
    then show ?thesis by simp
  qed
qed

text \<open>
  C10. Whatever the store and the executor do, every call \<^verbatim>\<open>Run\<close> makes is one of
  \<^verbatim>\<open>close(ready)\<close>, \<^verbatim>\<open>timer.Every\<close>, the logger's \<^verbatim>\<open>Info\<close> and \<^verbatim>\<open>Error\<close>,
  \<^verbatim>\<open>GetAllTasksByCellID\<close>, \<^verbatim>\<open>GetContainer\<close> and \<^verbatim>\<open>CompleteTask\<close>: the executor client is
  only queried with \<^verbatim>\<open>GetContainer\<close>, no container is run, stopped or deleted, and
  \<^verbatim>\<open>CompleteTask\<close> is the only store mutation. In the reference world the executor's
  containers are the same after \<^verbatim>\<open>Run\<close> as before.
\<close>

theorem reaper_never_mutates_executor:
  "call_name ` set (snd (snd (Run d r evs w))) \<subseteq> reaper_call_names
   \<and> ''RunContainer'' \<notin> call_name ` set (snd (snd (Run d r evs w)))
   \<and> ''StopContainer'' \<notin> call_name ` set (snd (snd (Run d r evs w)))
   \<and> ''DeleteContainer'' \<notin> call_name ` set (snd (snd (Run d r evs w)))
   \<and> ''StartTask'' \<notin> call_name ` set (snd (snd (Run d r evs w)))
   \<and> executor (fst (snd (Run (ref_reaper_deps c) r evs w0))) = executor w0"
proof -
  have "call_name ` set [Call ''close'' [Str ''ready''], Call ''timer.Every'' [Dur (pollInterval r)]]
      \<subseteq> reaper_call_names"
    by (simp add: reaper_call_names_def)
  with run_loop_names [of d r evs w]
  have sub: "call_name ` set (snd (snd (Run d r evs w))) \<subseteq> reaper_call_names"
    by (simp only: Run_run_loop snd_conv set_append image_Un Un_subset_iff simp_thms)
  have ex: "executor (fst (snd (Run (ref_reaper_deps c) r evs w0))) = executor w0"
    using ref_run_loop_executor [of c r evs w0] by (simp only: Run_run_loop fst_conv snd_conv)
  have "''RunContainer'' \<notin> reaper_call_names" "''StopContainer'' \<notin> reaper_call_names"
    "''DeleteContainer'' \<notin> reaper_call_names" "''StartTask'' \<notin> reaper_call_names"
    by (simp_all add: reaper_call_names_def)
  with sub ex show ?thesis by blast
qed

theorem reaper_never_mutates_executor_witness:
  "''DeleteContainer'' \<notin> call_name ` set (snd (snd (Run (ref_reaper_deps all_ok) reaperA [Tick, Signal] w6)))
   \<and> executor (fst (snd (Run (ref_reaper_deps all_ok) reaperA [Tick, Signal] w6))) = executor w6"
  using reaper_never_mutates_executor [of "ref_reaper_deps all_ok" reaperA "[Tick, Signal]" w6 all_ok w6]
  by simp

lemma run_loop_until_signal:
  "Signal \<notin> set pre \<Longrightarrow>
   run_loop d r (pre @ Signal # rest) w =
     (Some None, fst (ticks d r (length pre) w), snd (ticks d r (length pre) w))"
proof (induction pre arbitrary: w)
  case Nil
  show ?case by simp
next
  case (Cons e pre)
  then have e: "e = Tick" and rest: "Signal \<notin> set pre" by (cases e; simp)+
  from Cons.IH [OF rest, of "fst (tick d r w)"] e show ?case
    by (simp add: run_loop_Tick del: run_loop.simps split: prod.splits)
qed

lemma run_loop_no_signal:
  "Signal \<notin> set evs \<Longrightarrow> fst (run_loop d r evs w) = None"
proof (induction evs arbitrary: w)
  case Nil
  show ?case by simp
next
  case (Cons e evs)
  then have e: "e = Tick" and rest: "Signal \<notin> set evs" by (cases e; simp)+
  from Cons.IH [OF rest, of "fst (tick d r w)"] e show ?case
    by (simp add: run_loop_Tick del: run_loop.simps)
qed

text \<open>
  C9. When the select receives ticks and then a signal, \<^verbatim>\<open>Run\<close> returns \<^verbatim>\<open>nil\<close>; the
  world and the calls are those of as many whole iterations as ticks were received before
  the signal, so no iteration is cut short, and what would have been received after the
  signal has no effect: no call is made once the signal is taken. Without a signal
  \<^verbatim>\<open>Run\<close> does not return.
\<close>

theorem reaper_shutdown:
  assumes "Signal \<notin> set pre"
  shows "Run d r (pre @ Signal # rest) w =
     (Some None, fst (ticks d r (length pre) w),
      [Call ''close'' [Str ''ready''], Call ''timer.Every'' [Dur (pollInterval r)]]
      @ snd (ticks d r (length pre) w))
    \<and> fst (Run d r pre w) = None"
  using run_loop_until_signal [OF assms, of d r rest w] run_loop_no_signal [OF assms, of d r w]
  by (simp add: Run_run_loop)

theorem reaper_shutdown_witness:
  "Signal \<notin> set [Tick] \<and>
   Run (ref_reaper_deps all_ok) reaperA ([Tick] @ Signal # [Tick, Tick]) w6 =
     (Some None, fst (ticks (ref_reaper_deps all_ok) reaperA (length [Tick]) w6),
      [Call ''close'' [Str ''ready''], Call ''timer.Every'' [Dur (pollInterval reaperA)]]
      @ snd (ticks (ref_reaper_deps all_ok) reaperA (length [Tick]) w6))"
proof -
  have h: "Signal \<notin> set [Tick]" by simp
  from reaper_shutdown [OF h, of "ref_reaper_deps all_ok" reaperA "[Tick, Tick]" w6] h
  show ?thesis by blast
qed

lemma run_loop_no_error: "fst (run_loop d r evs w) \<noteq> Some (Some e)"
proof (induction evs arbitrary: w)
  case Nil
  show ?case by simp
next
  case (Cons ev evs)
  show ?case
  proof (cases ev)
    case Tick
    with Cons.IH [of "fst (tick d r w)"] show ?thesis by (simp add: run_loop_Tick del: run_loop.simps)
  next
    case Signal
    then show ?thesis by simp
  qed
qed

text \<open>
  C8. If \<^verbatim>\<open>GetAllTasksByCellID\<close> returns an error, the tick logs it and makes no other
  call (no \<^verbatim>\<open>CompleteTask\<close>), and the loop goes on with the next event. If
  \<^verbatim>\<open>CompleteTask\<close> returns an error for a task, the error is logged and the remaining
  tasks of the listing are processed as usual. \<^verbatim>\<open>Run\<close> never returns an error.
\<close>

theorem reaper_error_containment:
  "(GetAllTasksByCellID d (cellID r) w = (Inl e, w1) \<longrightarrow>
      tick d r w =
        (w1, [log_info ''reaper-entering-loop'', log_info ''reaper-getting-tasks-by-cell-id'',
              Call ''GetAllTasksByCellID'' [Str (cellID r)],
              log_error ''reaper-failed-to-get-tasks-by-cell-id'' e])
      \<and> run_loop d r (Tick # evs) w =
          (fst (run_loop d r evs w1), fst (snd (run_loop d r evs w1)),
           [log_info ''reaper-entering-loop'', log_info ''reaper-getting-tasks-by-cell-id'',
            Call ''GetAllTasksByCellID'' [Str (cellID r)],
            log_error ''reaper-failed-to-get-tasks-by-cell-id'' e]
           @ snd (snd (run_loop d r evs w1))))
   \<and> ((State t = TaskStateClaimed \<or> State t = TaskStateRunning) \<and>
      GetContainer d (TaskGuid t) wa = (Inl ErrContainerNotFound, wb) \<and>
      CompleteTask d (TaskGuid t) True ''task container no longer exists'' [] wb = (Some e2, wc) \<longrightarrow>
      reap_tasks d (t # ts) wa =
        (fst (reap_tasks d ts wc),
         [log_info ''reaper-finding-container-for-task'',
          Call ''GetContainer'' [Str (TaskGuid t)],
          log_info ''reaper-found-no-container-for-task'',
          log_info ''reaper-marking-containerless-task-as-failed'',
          Call ''CompleteTask''
            [Str (TaskGuid t), Bool True, Str ''task container no longer exists'', Str []],
          log_error ''reaper-failed-to-mark-containerless-task-as-failed'' e2]
         @ snd (reap_tasks d ts wc)))
   \<and> fst (Run d r evs' w') \<noteq> Some (Some e3)"
proof -
  have a: "tick d r w =
        (w1, [log_info ''reaper-entering-loop'', log_info ''reaper-getting-tasks-by-cell-id'',
              Call ''GetAllTasksByCellID'' [Str (cellID r)],
              log_error ''reaper-failed-to-get-tasks-by-cell-id'' e])"
    if "GetAllTasksByCellID d (cellID r) w = (Inl e, w1)"
    using that by (rule tick_list_failed)
  have b: "run_loop d r (Tick # evs) w =
          (fst (run_loop d r evs w1), fst (snd (run_loop d r evs w1)),
           [log_info ''reaper-entering-loop'', log_info ''reaper-getting-tasks-by-cell-id'',
            Call ''GetAllTasksByCellID'' [Str (cellID r)],
            log_error ''reaper-failed-to-get-tasks-by-cell-id'' e]
           @ snd (snd (run_loop d r evs w1)))"
    if "GetAllTasksByCellID d (cellID r) w = (Inl e, w1)"
    using a [OF that] by (simp add: run_loop_Tick del: run_loop.simps)
  have c: "reap_tasks d (t # ts) wa =
        (fst (reap_tasks d ts wc),
         [log_info ''reaper-finding-container-for-task'',
          Call ''GetContainer'' [Str (TaskGuid t)],
          log_info ''reaper-found-no-container-for-task'',
          log_info ''reaper-marking-containerless-task-as-failed'',
          Call ''CompleteTask''
            [Str (TaskGuid t), Bool True, Str ''task container no longer exists'', Str []],
          log_error ''reaper-failed-to-mark-containerless-task-as-failed'' e2]
         @ snd (reap_tasks d ts wc))"
    if "State t = TaskStateClaimed \<or> State t = TaskStateRunning"
      and "GetContainer d (TaskGuid t) wa = (Inl ErrContainerNotFound, wb)"
      and "CompleteTask d (TaskGuid t) True ''task container no longer exists'' [] wb = (Some e2, wc)"
    using that by (auto simp: reap_tasks_Cons reap_task_def simp del: reap_tasks.simps)
  have d: "fst (Run d r evs' w') \<noteq> Some (Some e3)"
    using run_loop_no_error [of d r evs' w' e3] by (simp add: Run_run_loop)
  from a b c d show ?thesis by blast
qed


theorem reaper_error_containment_witness:
  "GetAllTasksByCellID (ref_reaper_deps store_down) (cellID reaperA) w6 = (Inl (OtherError ''store unavailable''), w6)
   \<and> tick (ref_reaper_deps store_down) reaperA w6 =
        (w6, [log_info ''reaper-entering-loop'', log_info ''reaper-getting-tasks-by-cell-id'',
              Call ''GetAllTasksByCellID'' [Str (cellID reaperA)],
              log_error ''reaper-failed-to-get-tasks-by-cell-id'' (OtherError ''store unavailable'')])
   \<and> State task6 = TaskStateRunning
   \<and> GetContainer (ref_reaper_deps store_down) (TaskGuid task6) w6 = (Inl ErrContainerNotFound, w6)
   \<and> CompleteTask (ref_reaper_deps store_down) (TaskGuid task6) True ''task container no longer exists'' [] w6
       = (Some (OtherError ''store unavailable''), w6)
   \<and> fst (reap_tasks (ref_reaper_deps store_down) (task6 # [task6]) w6) = fst (reap_tasks (ref_reaper_deps store_down) [task6] w6)"
proof -
  have h1: "GetAllTasksByCellID (ref_reaper_deps store_down) (cellID reaperA) w6 = (Inl (OtherError ''store unavailable''), w6)"
    by (simp add: ref_reaper_simps store_down_def)
  have h2: "State task6 = TaskStateRunning" by (simp add: task6_def)
  have h3: "GetContainer (ref_reaper_deps store_down) (TaskGuid task6) w6 = (Inl ErrContainerNotFound, w6)"
    by (simp add: ref_reaper_simps w6_def)
  have h4: "CompleteTask (ref_reaper_deps store_down) (TaskGuid task6) True ''task container no longer exists'' [] w6
       = (Some (OtherError ''store unavailable''), w6)"
    by (simp add: ref_reaper_simps store_down_def)
  from reaper_error_containment [of "ref_reaper_deps store_down" reaperA w6 "OtherError ''store unavailable''" w6
      "[]" task6 w6 w6 "OtherError ''store unavailable''" w6 "[task6]" "[]" w6 ErrContainerNotFound]
    h1 h2 h3 h4
  show ?thesis by simp
qed

lemma store_lookup_map:
  "(\<And>u. TaskGuid (F u) = TaskGuid u) \<Longrightarrow> store_lookup (map F ts) g = map_option F (store_lookup ts g)"
  by (induction ts) (simp_all add: store_lookup_def)

lemma store_lookup_in: "store_lookup ts g = Some t \<Longrightarrow> t \<in> set ts \<and> TaskGuid t = g"
  by (auto simp: store_lookup_def find_Some_iff)

lemma ref_CompleteTask_other:
  "g' \<noteq> g \<Longrightarrow> store_lookup (store (snd (ref_CompleteTask c g' f rs res w))) g = store_lookup (store w) g"
proof -
  have "store_lookup (map (\<lambda>u. if TaskGuid u = g' \<and> completable u then completed f rs res u else u) ts) g
        = store_lookup ts g" if "g' \<noteq> g" for ts
    using that by (induction ts) (auto simp: store_lookup_def completed_def)
  then show "g' \<noteq> g \<Longrightarrow> ?thesis"
    by (simp add: ref_CompleteTask_def split: option.splits)
qed

lemma ref_CompleteTask_same:
  assumes "store_lookup (store w) g = Some t"
  shows "store_lookup (store (snd (ref_CompleteTask c g f rs res w))) g =
           (if complete_ok c \<and> completable t then Some (completed f rs res t) else Some t)"
proof -
  have "TaskGuid (if TaskGuid u = g \<and> completable u then completed f rs res u else u) = TaskGuid u" for u
    by (simp add: completed_def)
  from store_lookup_map [of "\<lambda>u. if TaskGuid u = g \<and> completable u then completed f rs res u else u", OF this]
    assms store_lookup_in [OF assms]
  show ?thesis by (simp add: ref_CompleteTask_def)
qed

lemma ref_reap_task_world:
  "fst (reap_task (ref_reaper_deps c) x w) =
     (if (State x = TaskStateClaimed \<or> State x = TaskStateRunning) \<and> executor w (TaskGuid x) = None
      then snd (ref_CompleteTask c (TaskGuid x) True ''task container no longer exists'' [] w) else w)"
  by (simp add: reap_task_def ref_reaper_deps_def ref_GetContainer_def split: option.splits prod.splits)

lemma completed_not_completable: "\<not> completable (completed f rs res t)"
  by (simp add: completable_def completed_def)

lemma ref_reap_task_keeps_completed:
  assumes "store_lookup (store w) g = Some (completed f rs res t)"
  shows "store_lookup (store (fst (reap_task (ref_reaper_deps c) x w))) g = Some (completed f rs res t)"
proof (cases "TaskGuid x = g")
  case True
  with ref_CompleteTask_same [OF assms, of c] completed_not_completable show ?thesis
    by (simp add: ref_reap_task_world assms)
next
  case False
  with ref_CompleteTask_other [of "TaskGuid x" g c] assms show ?thesis
    by (simp add: ref_reap_task_world)
qed

lemma ref_reap_tasks_keeps_completed:
  "store_lookup (store w) g = Some (completed f rs res t) \<Longrightarrow>
   store_lookup (store (fst (reap_tasks (ref_reaper_deps c) xs w))) g = Some (completed f rs res t)"
proof (induction xs arbitrary: w)
  case Nil
  then show ?case by simp
next
  case (Cons x xs)
  from Cons.IH [OF ref_reap_task_keeps_completed [OF Cons.prems, of c x]]
  show ?case by (simp only: reap_tasks_Cons fst_conv)
qed

lemma ref_reap_tasks_completes:
  assumes ok: "complete_ok c"
    and st: "State t = TaskStateClaimed \<or> State t = TaskStateRunning"
  shows "t \<in> set xs \<Longrightarrow> store_lookup (store w) (TaskGuid t) = Some t \<Longrightarrow>
         executor w (TaskGuid t) = None \<Longrightarrow>
         store_lookup (store (fst (reap_tasks (ref_reaper_deps c) xs w))) (TaskGuid t) =
           Some (completed True ''task container no longer exists'' [] t)"
proof (induction xs arbitrary: w)
  case Nil
  then show ?case by simp
next
  case (Cons x xs)
  let ?w1 = "fst (reap_task (ref_reaper_deps c) x w)"
  have ex1: "executor ?w1 (TaskGuid t) = None"
    using Cons.prems(3) by (simp add: ref_reap_task_executor)
  have ct: "completable t" using st by (auto simp: completable_def)
  show ?case
  proof (cases "TaskGuid x = TaskGuid t \<and> (State x = TaskStateClaimed \<or> State x = TaskStateRunning)")
    case True
    with ref_CompleteTask_same [OF Cons.prems(2), of c True "''task container no longer exists''" "[]"]
      ok ct Cons.prems(3)
    have "store_lookup (store ?w1) (TaskGuid t) = Some (completed True ''task container no longer exists'' [] t)"
      by (simp add: ref_reap_task_world)
    from ref_reap_tasks_keeps_completed [OF this, of c xs]
    show ?thesis by (simp only: reap_tasks_Cons fst_conv)
  next
    case False
    with st have "x \<noteq> t" by auto
    with Cons.prems(1) have tin: "t \<in> set xs" by simp
    have "store_lookup (store ?w1) (TaskGuid t) = Some t"
    proof (cases "TaskGuid x = TaskGuid t")
      case True
      with False show ?thesis using Cons.prems(2) by (simp add: ref_reap_task_world)
    next
      case neq: False
      with ref_CompleteTask_other [of "TaskGuid x" "TaskGuid t" c] Cons.prems(2)
      show ?thesis by (simp add: ref_reap_task_world)
    qed
    from Cons.IH [OF tin this ex1] show ?thesis by (simp only: reap_tasks_Cons fst_conv)
  qed
qed

text \<open>
  C2 (as amended). For a task listed for the local cell, in state Running or Claimed,
  for whose guid \<^verbatim>\<open>GetContainer\<close> returns \<open>ErrContainerNotFound\<close>, the tick calls
  \<^verbatim>\<open>CompleteTask\<close> with the task's guid, \<open>true\<close>, the reason
  "task container no longer exists" and the empty result; the call carries no cell
  identifier. In the reference world, when the store carries completions out, the task
  record is afterwards Completed with \<open>failed = true\<close> and that reason.
\<close>

theorem reaper_convergence:
  "(GetAllTasksByCellID d (cellID r) w = (Inr (pre @ t # post), w0) \<and>
    (State t = TaskStateClaimed \<or> State t = TaskStateRunning) \<and>
    fst (GetContainer d (TaskGuid t) (fst (reap_tasks d pre w0))) = Inl ErrContainerNotFound \<longrightarrow>
      Call ''CompleteTask''
        [Str (TaskGuid t), Bool True, Str ''task container no longer exists'', Str []]
        \<in> set (snd (tick d r w)))
   \<and> (lookup_ok c \<and> complete_ok c \<and> store_lookup (store v) (TaskGuid u) = Some u \<and>
      CellID u = cellID r \<and> (State u = TaskStateClaimed \<or> State u = TaskStateRunning) \<and>
      executor v (TaskGuid u) = None \<longrightarrow>
        store_lookup (store (fst (tick (ref_reaper_deps c) r v))) (TaskGuid u) =
          Some (u\<lparr>State := TaskStateCompleted, Failed := True,
                  FailureReason := ''task container no longer exists'', Result := []\<rparr>))"
proof -
  have a: "Call ''CompleteTask''
        [Str (TaskGuid t), Bool True, Str ''task container no longer exists'', Str []]
        \<in> set (snd (tick d r w))"
    if l: "GetAllTasksByCellID d (cellID r) w = (Inr (pre @ t # post), w0)"
      and s: "State t = TaskStateClaimed \<or> State t = TaskStateRunning"
      and g: "fst (GetContainer d (TaskGuid t) (fst (reap_tasks d pre w0))) = Inl ErrContainerNotFound"
  proof -
    have "Call ''CompleteTask''
        [Str (TaskGuid t), Bool True, Str ''task container no longer exists'', Str []]
        \<in> set (snd (reap_task d t (fst (reap_tasks d pre w0))))"
      using s g by (auto simp: reap_task_def split: prod.splits sum.splits option.splits)
    then show ?thesis by (simp add: tick_listed [OF l] reap_tasks_split)
  qed
  have b: "store_lookup (store (fst (tick (ref_reaper_deps c) r v))) (TaskGuid u) =
          Some (u\<lparr>State := TaskStateCompleted, Failed := True,
                  FailureReason := ''task container no longer exists'', Result := []\<rparr>)"
    if lk: "lookup_ok c" and ck: "complete_ok c"
      and su: "store_lookup (store v) (TaskGuid u) = Some u"
      and cu: "CellID u = cellID r"
      and st: "State u = TaskStateClaimed \<or> State u = TaskStateRunning"
      and ex: "executor v (TaskGuid u) = None"
  proof -
    from lk have l: "GetAllTasksByCellID (ref_reaper_deps c) (cellID r) v =
        (Inr (filter (\<lambda>t. CellID t = cellID r) (store v)), v)"
      by (simp add: ref_reaper_deps_def ref_GetAllTasksByCellID_def)
    from store_lookup_in [OF su] cu have "u \<in> set (filter (\<lambda>t. CellID t = cellID r) (store v))"
      by simp
    from ref_reap_tasks_completes [OF ck st this su ex] show ?thesis
      by (simp add: tick_listed_world [OF l] completed_def)
  qed
  from a b show ?thesis by blast
qed

theorem reaper_convergence_witness:
  "GetAllTasksByCellID (ref_reaper_deps all_ok) (cellID reaperA) w6 = (Inr ([] @ task6 # []), w6)
   \<and> State task6 = TaskStateRunning
   \<and> fst (GetContainer (ref_reaper_deps all_ok) (TaskGuid task6) (fst (reap_tasks (ref_reaper_deps all_ok) [] w6)))
       = Inl ErrContainerNotFound
   \<and> lookup_ok all_ok \<and> complete_ok all_ok
   \<and> store_lookup (store w6) (TaskGuid task6) = Some task6
   \<and> CellID task6 = cellID reaperA
   \<and> executor w6 (TaskGuid task6) = None
   \<and> Call ''CompleteTask'' [Str ''g6'', Bool True, Str ''task container no longer exists'', Str []]
        \<in> set (snd (tick (ref_reaper_deps all_ok) reaperA w6))
   \<and> store_lookup (store (fst (tick (ref_reaper_deps all_ok) reaperA w6))) ''g6'' =
        Some \<lparr>TaskGuid = ''g6'', CellID = ''A'', State = TaskStateCompleted, Failed = True,
              FailureReason = ''task container no longer exists'', Result = [], ResultFile = []\<rparr>"
proof -
  have h1: "GetAllTasksByCellID (ref_reaper_deps all_ok) (cellID reaperA) w6 = (Inr ([] @ task6 # []), w6)"
    by (simp add: ref_reaper_simps scenario6_defs)
  have h2: "State task6 = TaskStateRunning" by (simp add: task6_def)
  have h3: "fst (GetContainer (ref_reaper_deps all_ok) (TaskGuid task6) (fst (reap_tasks (ref_reaper_deps all_ok) [] w6)))
       = Inl ErrContainerNotFound"
    by (simp add: ref_reaper_simps scenario6_defs)
  have h4: "lookup_ok all_ok" "complete_ok all_ok" by (simp_all add: all_ok_def)
  have h5: "store_lookup (store w6) (TaskGuid task6) = Some task6"
    by (simp add: store_lookup_def scenario6_defs)
  have h6: "CellID task6 = cellID reaperA" by (simp add: scenario6_defs)
  have h7: "executor w6 (TaskGuid task6) = None" by (simp add: scenario6_defs)
  have g: "TaskGuid task6 = ''g6''" by (simp add: task6_def)
  from reaper_convergence [of "ref_reaper_deps all_ok" reaperA w6 "[]" task6 "[]" w6 all_ok w6 task6]
    h1 h2 h3 h4 h5 h6 h7
  have "Call ''CompleteTask'' [Str (TaskGuid task6), Bool True, Str ''task container no longer exists'', Str []]
        \<in> set (snd (tick (ref_reaper_deps all_ok) reaperA w6))
     \<and> store_lookup (store (fst (tick (ref_reaper_deps all_ok) reaperA w6))) (TaskGuid task6) =
          Some (task6\<lparr>State := TaskStateCompleted, Failed := True,
                  FailureReason := ''task container no longer exists'', Result := []\<rparr>)"
    by blast
  then show ?thesis using h1 h2 h3 h4 h5 h6 h7 by (simp add: g) (simp add: task6_def)
qed

text \<open>
  Scenario 6 of the specification: the \<^verbatim>\<open>CompleteTask\<close> call of the tick has four
  arguments, none of them the cell identifier \<open>''A''\<close>, so the five-argument call with the
  cell identifier is not made; and when the store refuses the completion, the error is
  logged and the task is still Running after the tick.
\<close>

theorem reaper_convergence_counterexample:
  "State task6 = TaskStateRunning \<and> CellID task6 = cellID reaperA
   \<and> GetContainer (ref_reaper_deps all_ok) (TaskGuid task6) w6 = (Inl ErrContainerNotFound, w6)
   \<and> filter (\<lambda>k. call_name k = ''CompleteTask'') (snd (tick (ref_reaper_deps all_ok) reaperA w6)) =
       [Call ''CompleteTask'' [Str ''g6'', Bool True, Str ''task container no longer exists'', Str []]]
   \<and> Call ''CompleteTask'' [Str ''g6'', Str ''A'', Bool True, Str ''task container no longer exists'', Str []]
       \<notin> set (snd (tick (ref_reaper_deps all_ok) reaperA w6))
   \<and> GetContainer (ref_reaper_deps complete_down) (TaskGuid task6) w6 = (Inl ErrContainerNotFound, w6)
   \<and> store (fst (tick (ref_reaper_deps complete_down) reaperA w6)) = [task6]"
  by (simp add: tick_def reap_task_def ref_reaper_simps scenario6_defs complete_down_def
      log_info_def log_error_def)

section \<open>Properties of the processor\<close>

lemmas ref_processor_simps =
  ref_processor_deps_def ref_task_by_guid_def ref_start_task_def ref_complete_task_def
  ref_delete_container_def store_lookup_def completable_def completed_def started_def
  owned_or_free_def
lemmas scenario_defs =
  scenario_container_def scenario_completed_container_def scenario_task_def processorA_def
  world_of_def all_ok_def
lemmas process_simps =
  process_def decide_def claim_def complete_and_delete_def result_file_path_def

lemma process_found:
  "task_by_guid d (Guid k) w = (Inr t, w1) \<Longrightarrow>
   process d p k w =
     (fst (perform d p k (decide (local_cell_id p) (ContainerState k) (Some t)) w1),
      Call ''task_by_guid'' [Str (Guid k)]
      # snd (perform d p k (decide (local_cell_id p) (ContainerState k) (Some t)) w1))"
  by (simp add: process_def split: prod.splits)

lemma ref_task_by_guid_found:
  "lookup_ok c \<Longrightarrow> store_lookup (store v) g = Some u \<Longrightarrow>
   task_by_guid (ref_processor_deps c) g v = (Inr u, v)"
  by (simp add: ref_processor_deps_def ref_task_by_guid_def)

lemma decide_other_owner:
  "CellID t \<noteq> [] \<Longrightarrow> CellID t \<noteq> cell \<Longrightarrow> decide cell cs (Some t) = DeleteContainer"
  by (simp add: decide_def)

lemma perform_delete:
  "perform d p k DeleteContainer w =
     (snd (delete_container d (Guid k) w), [Call ''delete_container'' [Str (Guid k)]])"
  by (simp split: prod.splits)

lemma ref_delete_store: "store (snd (delete_container (ref_processor_deps c) g v)) = store v"
  by (simp add: ref_processor_deps_def ref_delete_container_def)

lemma process_other_owner:
  "task_by_guid d (Guid k) w = (Inr t, w1) \<Longrightarrow> CellID t \<noteq> [] \<Longrightarrow> CellID t \<noteq> local_cell_id p \<Longrightarrow>
   process d p k w =
     (snd (delete_container d (Guid k) w1),
      [Call ''task_by_guid'' [Str (Guid k)], Call ''delete_container'' [Str (Guid k)]])"
  by (simp add: process_found decide_other_owner perform_delete del: perform.simps)

text \<open>
  C1. When the store task of the processed container exists and its \<open>cell_id\<close> is set and
  is not the local cell, \<open>process\<close> makes exactly two calls, whatever the states of the
  container and of the task: the lookup and one \<^verbatim>\<open>delete_container\<close> of the container's
  guid. So there is no \<^verbatim>\<open>start_task\<close> and no \<^verbatim>\<open>complete_task\<close>, and in the
  reference world the store is left as it was.
\<close>

theorem owner_safety:
  "(task_by_guid d (Guid k) w = (Inr t, w1) \<and> CellID t \<noteq> [] \<and> CellID t \<noteq> local_cell_id p \<longrightarrow>
      process d p k w =
        (snd (delete_container d (Guid k) w1),
         [Call ''task_by_guid'' [Str (Guid k)], Call ''delete_container'' [Str (Guid k)]])
      \<and> filter (\<lambda>c. call_name c = ''start_task'' \<or> call_name c = ''complete_task'')
           (snd (process d p k w)) = []
      \<and> length (filter (\<lambda>c. call_name c = ''delete_container'') (snd (process d p k w))) \<le> 1)
   \<and> (lookup_ok c \<and> store_lookup (store v) (Guid k) = Some u \<and>
      CellID u \<noteq> [] \<and> CellID u \<noteq> local_cell_id p \<longrightarrow>
      store (fst (process (ref_processor_deps c) p k v)) = store v)"
proof -
  have b: "store (fst (process (ref_processor_deps c) p k v)) = store v"
    if "lookup_ok c" "store_lookup (store v) (Guid k) = Some u"
      "CellID u \<noteq> []" "CellID u \<noteq> local_cell_id p"
    using process_other_owner [OF ref_task_by_guid_found [OF that(1,2)] that(3,4)]
    by (simp add: ref_delete_store)
  show ?thesis
  proof (intro conjI impI)
    assume h: "task_by_guid d (Guid k) w = (Inr t, w1) \<and> CellID t \<noteq> [] \<and> CellID t \<noteq> local_cell_id p"
    then have eq: "process d p k w =
        (snd (delete_container d (Guid k) w1),
         [Call ''task_by_guid'' [Str (Guid k)], Call ''delete_container'' [Str (Guid k)]])"
      by (simp add: process_other_owner)
    show "process d p k w =
        (snd (delete_container d (Guid k) w1),
         [Call ''task_by_guid'' [Str (Guid k)], Call ''delete_container'' [Str (Guid k)]])"
      by (rule eq)
    show "filter (\<lambda>c. call_name c = ''start_task'' \<or> call_name c = ''complete_task'')
           (snd (process d p k w)) = []"
      by (simp add: eq)
    show "length (filter (\<lambda>c. call_name c = ''delete_container'') (snd (process d p k w))) \<le> 1"
      by (simp add: eq)
  next
    assume "lookup_ok c \<and> store_lookup (store v) (Guid k) = Some u \<and>
      CellID u \<noteq> [] \<and> CellID u \<noteq> local_cell_id p"
    then show "store (fst (process (ref_processor_deps c) p k v)) = store v"
      using b by blast
  qed
qed

text \<open>Scenario 5 of the specification: a Running container whose task runs on cell B.\<close>

theorem owner_safety_witness:
  "task_by_guid (ref_processor_deps all_ok) (Guid (scenario_container ''g5'' StateRunning))
       (world_of (scenario_task ''g5'' ''B'' TaskStateRunning) (scenario_container ''g5'' StateRunning))
     = (Inr (scenario_task ''g5'' ''B'' TaskStateRunning),
        world_of (scenario_task ''g5'' ''B'' TaskStateRunning) (scenario_container ''g5'' StateRunning))
   \<and> CellID (scenario_task ''g5'' ''B'' TaskStateRunning) \<noteq> []
   \<and> CellID (scenario_task ''g5'' ''B'' TaskStateRunning) \<noteq> local_cell_id processorA
   \<and> snd (process (ref_processor_deps all_ok) processorA (scenario_container ''g5'' StateRunning)
       (world_of (scenario_task ''g5'' ''B'' TaskStateRunning) (scenario_container ''g5'' StateRunning)))
     = [Call ''task_by_guid'' [Str ''g5''], Call ''delete_container'' [Str ''g5'']]
   \<and> lookup_ok all_ok
   \<and> store (fst (process (ref_processor_deps all_ok) processorA (scenario_container ''g5'' StateRunning)
       (world_of (scenario_task ''g5'' ''B'' TaskStateRunning) (scenario_container ''g5'' StateRunning))))
     = [scenario_task ''g5'' ''B'' TaskStateRunning]"
proof -
  let ?k = "scenario_container ''g5'' StateRunning"
  let ?t = "scenario_task ''g5'' ''B'' TaskStateRunning"
  let ?w = "world_of ?t ?k"
  have h1: "task_by_guid (ref_processor_deps all_ok) (Guid ?k) ?w = (Inr ?t, ?w)
      \<and> CellID ?t \<noteq> [] \<and> CellID ?t \<noteq> local_cell_id processorA"
    by (simp add: ref_processor_simps scenario_defs)
  have h2: "lookup_ok all_ok \<and> store_lookup (store ?w) (Guid ?k) = Some ?t
      \<and> CellID ?t \<noteq> [] \<and> CellID ?t \<noteq> local_cell_id processorA"
    by (simp add: store_lookup_def scenario_defs)
  note T = owner_safety [of "ref_processor_deps all_ok" ?k ?w ?t ?w processorA all_ok ?w ?t]
  note c1 = conjunct1 [OF T, THEN mp, OF h1]
  note c2 = conjunct2 [OF T, THEN mp, OF h2]
  have "snd (process (ref_processor_deps all_ok) processorA ?k ?w)
      = [Call ''task_by_guid'' [Str (Guid ?k)], Call ''delete_container'' [Str (Guid ?k)]]"
    by (simp only: conjunct1 [OF c1] snd_conv)
  with h1 h2 c2 show ?thesis by (simp add: scenario_defs)
qed

lemma decide_pending:
  "State t = TaskStatePending \<Longrightarrow> CellID t = [] \<or> CellID t = cell \<Longrightarrow>
   decide cell cs (Some t) = pending_row cs"
  by (auto simp: decide_def)

lemma decide_running_local:
  "State t = TaskStateRunning \<Longrightarrow> CellID t = cell \<Longrightarrow>
   decide cell cs (Some t) = running_local_row cs"
  by (auto simp: decide_def)

lemma claim_no_run_names:
  "call_name ` set (snd (claim d p False g w)) \<subseteq> {''start_task'', ''delete_container''}"
  by (auto simp: claim_def split: prod.splits option.splits bool.splits)

lemma claim_first_call:
  "\<exists>rest. snd (claim d p run g w) = Call ''start_task'' [Str g, Str (local_cell_id p)] # rest"
  by (auto simp: claim_def split: prod.splits option.splits bool.splits)

lemma claim_run_changed:
  "start_task d g (local_cell_id p) w = ((True, None), w1) \<Longrightarrow>
   \<exists>rest. snd (claim d p True g w) =
      Call ''start_task'' [Str g, Str (local_cell_id p)] # Call ''run_container'' [Str g] # rest"
  by (auto simp: claim_def split: prod.splits option.splits bool.splits)

lemma ref_start_task_pending:
  assumes "start_ok c" "store_lookup (store v) g = Some u" "State u = TaskStatePending"
  shows "fst (start_task (ref_processor_deps c) g cell v) = (True, None)"
    and "store_lookup (store (snd (start_task (ref_processor_deps c) g cell v))) g = Some (started cell u)"
    and "executor (snd (start_task (ref_processor_deps c) g cell v)) = executor v"
proof -
  have "TaskGuid (if TaskGuid x = g \<and> State x = TaskStatePending then started cell x else x) = TaskGuid x" for x
    by (simp add: started_def)
  from store_lookup_map [of "\<lambda>x. if TaskGuid x = g \<and> State x = TaskStatePending then started cell x else x", OF this]
    assms store_lookup_in [OF assms(2)]
  show "store_lookup (store (snd (start_task (ref_processor_deps c) g cell v))) g = Some (started cell u)"
    by (simp add: ref_processor_deps_def ref_start_task_def)
  from assms show "fst (start_task (ref_processor_deps c) g cell v) = (True, None)"
    by (simp add: ref_processor_deps_def ref_start_task_def)
  from assms show "executor (snd (start_task (ref_processor_deps c) g cell v)) = executor v"
    by (simp add: ref_processor_deps_def ref_start_task_def)
qed

lemma claim_only_world:
  "start_task d g (local_cell_id p) w = ((True, None), w1) \<Longrightarrow> fst (claim d p False g w) = w1"
  by (simp add: claim_def)

lemma ref_start_task_down:
  "\<not> start_ok c \<Longrightarrow>
   start_task (ref_processor_deps c) g cell v = ((False, Some (OtherError ''store unavailable'')), v)"
  by (simp add: ref_processor_deps_def ref_start_task_def)

lemma ref_claim_down:
  "\<not> start_ok c \<Longrightarrow>
   claim (ref_processor_deps c) p run g v = (v, [Call ''start_task'' [Str g, Str (local_cell_id p)]])"
  by (simp add: claim_def ref_start_task_down)

lemma claim_changed:
  "start_task d g (local_cell_id p) w = ((True, None), w1) \<Longrightarrow>
   claim d p True g w =
     (if fst (run_container d g w1)
      then (snd (run_container d g w1),
            [Call ''start_task'' [Str g, Str (local_cell_id p)], Call ''run_container'' [Str g]])
      else (snd (complete_task d g (local_cell_id p) True ''failed to run container'' []
                   (snd (run_container d g w1))),
            [Call ''start_task'' [Str g, Str (local_cell_id p)], Call ''run_container'' [Str g],
             Call ''complete_task''
               [Str g, Str (local_cell_id p), Bool True, Str ''failed to run container'', Str []]]))"
  by (auto simp: claim_def split: prod.splits bool.splits)

lemma ref_run_container: "run_container (ref_processor_deps c) g w = (run_ok c, w)"
  by (simp add: ref_processor_deps_def)

lemma claim_only_changed:
  "start_task d g (local_cell_id p) w = ((True, None), w2) \<Longrightarrow>
   claim d p False g w = (w2, [Call ''start_task'' [Str g, Str (local_cell_id p)]])"
  by (simp add: claim_def)

lemma claim_refused:
  "start_task d g (local_cell_id p) w = ((False, None), w2) \<Longrightarrow>
   claim d p run g w =
     (snd (delete_container d g w2),
      [Call ''start_task'' [Str g, Str (local_cell_id p)], Call ''delete_container'' [Str g]])"
  by (simp add: claim_def split: prod.splits)

lemma claim_store_error:
  "start_task d g (local_cell_id p) w = ((ch, Some e), w2) \<Longrightarrow>
   claim d p run g w = (w2, [Call ''start_task'' [Str g, Str (local_cell_id p)]])"
  by (cases ch) (simp_all add: claim_def)

lemma claim_run_accepted:
  "start_task d g (local_cell_id p) w = ((True, None), w2) \<Longrightarrow>
   run_container d g w2 = (True, w3) \<Longrightarrow>
   claim d p True g w =
     (w3, [Call ''start_task'' [Str g, Str (local_cell_id p)], Call ''run_container'' [Str g]])"
  by (simp add: claim_changed)

lemma claim_run_refused:
  "start_task d g (local_cell_id p) w = ((True, None), w2) \<Longrightarrow>
   run_container d g w2 = (False, w3) \<Longrightarrow>
   claim d p True g w =
     (snd (complete_task d g (local_cell_id p) True ''failed to run container'' [] w3),
      [Call ''start_task'' [Str g, Str (local_cell_id p)], Call ''run_container'' [Str g],
       Call ''complete_task''
         [Str g, Str (local_cell_id p), Bool True, Str ''failed to run container'', Str []]])"
  by (simp add: claim_changed)

text \<open>
  C6 (as amended). For a Created or Running container whose task is found Pending (with
  no other owner: the \<open>cell_id\<close> of a Pending task is empty), \<open>process\<close> invokes the store's
  \<^verbatim>\<open>start_task\<close> with the container's guid and the local cell, on the world the lookup
  returned, and never calls \<^verbatim>\<open>run_container\<close>: when the claim succeeds that is all; when
  the store answers \<open>changed = false\<close> the container is deleted; when it answers with an
  error nothing more is done. For a Reserved or Initializing container a claim that
  succeeded is followed by \<^verbatim>\<open>run_container\<close>. In the reference world the task is Running
  on the local cell afterwards when the store carries the claim out, and is left Pending,
  with the world as it was, when the store cannot be reached for the claim.
\<close>

theorem created_or_running_pending_sets_running:
  "(task_by_guid d (Guid k) w = (Inr t, w1) \<and> State t = TaskStatePending \<and>
    (CellID t = [] \<or> CellID t = local_cell_id p) \<and>
    (ContainerState k = StateCreated \<or> ContainerState k = StateRunning) \<longrightarrow>
      (\<exists>rest. snd (process d p k w) =
          Call ''task_by_guid'' [Str (Guid k)]
          # Call ''start_task'' [Str (Guid k), Str (local_cell_id p)] # rest)
      \<and> ''run_container'' \<notin> call_name ` set (snd (process d p k w))
      \<and> (\<forall>w2. start_task d (Guid k) (local_cell_id p) w1 = ((True, None), w2) \<longrightarrow>
            process d p k w =
              (w2, [Call ''task_by_guid'' [Str (Guid k)],
                    Call ''start_task'' [Str (Guid k), Str (local_cell_id p)]]))
      \<and> (\<forall>w2. start_task d (Guid k) (local_cell_id p) w1 = ((False, None), w2) \<longrightarrow>
            process d p k w =
              (snd (delete_container d (Guid k) w2),
               [Call ''task_by_guid'' [Str (Guid k)],
                Call ''start_task'' [Str (Guid k), Str (local_cell_id p)],
                Call ''delete_container'' [Str (Guid k)]]))
      \<and> (\<forall>ch e w2. start_task d (Guid k) (local_cell_id p) w1 = ((ch, Some e), w2) \<longrightarrow>
            process d p k w =
              (w2, [Call ''task_by_guid'' [Str (Guid k)],
                    Call ''start_task'' [Str (Guid k), Str (local_cell_id p)]])))
   \<and> (task_by_guid d (Guid k) w = (Inr t, w1) \<and> State t = TaskStatePending \<and>
      (CellID t = [] \<or> CellID t = local_cell_id p) \<and>
      (ContainerState k = StateReserved \<or> ContainerState k = StateInitializing) \<and>
      start_task d (Guid k) (local_cell_id p) w1 = ((True, None), w2) \<longrightarrow>
      (\<exists>rest. snd (process d p k w) =
          Call ''task_by_guid'' [Str (Guid k)]
          # Call ''start_task'' [Str (Guid k), Str (local_cell_id p)]
          # Call ''run_container'' [Str (Guid k)] # rest)
      \<and> (\<forall>w3. run_container d (Guid k) w2 = (True, w3) \<longrightarrow>
            process d p k w =
              (w3, [Call ''task_by_guid'' [Str (Guid k)],
                    Call ''start_task'' [Str (Guid k), Str (local_cell_id p)],
                    Call ''run_container'' [Str (Guid k)]])))
   \<and> (lookup_ok c \<and> start_ok c \<and> store_lookup (store v) (Guid k) = Some u \<and>
      State u = TaskStatePending \<and> (CellID u = [] \<or> CellID u = local_cell_id p) \<and>
      (ContainerState k = StateCreated \<or> ContainerState k = StateRunning) \<longrightarrow>
      store_lookup (store (fst (process (ref_processor_deps c) p k v))) (Guid k) =
        Some (u\<lparr>CellID := local_cell_id p, State := TaskStateRunning\<rparr>)
      \<and> executor (fst (process (ref_processor_deps c) p k v)) = executor v)
   \<and> (lookup_ok c \<and> \<not> start_ok c \<and> store_lookup (store v) (Guid k) = Some u \<and>
      State u = TaskStatePending \<and> (CellID u = [] \<or> CellID u = local_cell_id p) \<and>
      (ContainerState k = StateCreated \<or> ContainerState k = StateRunning) \<longrightarrow>
      process (ref_processor_deps c) p k v =
        (v, [Call ''task_by_guid'' [Str (Guid k)],
             Call ''start_task'' [Str (Guid k), Str (local_cell_id p)]]))"
proof (intro conjI impI allI; (elim conjE)?)
  assume l: "task_by_guid d (Guid k) w = (Inr t, w1)" and s: "State t = TaskStatePending"
    and o: "CellID t = [] \<or> CellID t = local_cell_id p"
    and cs: "ContainerState k = StateCreated \<or> ContainerState k = StateRunning"
  from cs have row: "pending_row (ContainerState k) = ClaimOnly" by auto
  have p: "process d p k w =
      (fst (claim d p False (Guid k) w1),
       Call ''task_by_guid'' [Str (Guid k)] # snd (claim d p False (Guid k) w1))"
    by (simp add: process_found [OF l] decide_pending [OF s o] row)
  from claim_first_call [of d p False "Guid k" w1]
  show "\<exists>rest. snd (process d p k w) =
          Call ''task_by_guid'' [Str (Guid k)]
          # Call ''start_task'' [Str (Guid k), Str (local_cell_id p)] # rest"
    by (simp add: p)
  from claim_no_run_names [of d p "Guid k" w1]
  show "''run_container'' \<notin> call_name ` set (snd (process d p k w))"
    by (auto simp: p)
  {
    fix w2
    assume "start_task d (Guid k) (local_cell_id p) w1 = ((True, None), w2)"
    then show "process d p k w =
              (w2, [Call ''task_by_guid'' [Str (Guid k)],
                    Call ''start_task'' [Str (Guid k), Str (local_cell_id p)]])"
      by (simp add: p claim_only_changed)
  }
  {
    fix w2
    assume "start_task d (Guid k) (local_cell_id p) w1 = ((False, None), w2)"
    then show "process d p k w =
              (snd (delete_container d (Guid k) w2),
               [Call ''task_by_guid'' [Str (Guid k)],
                Call ''start_task'' [Str (Guid k), Str (local_cell_id p)],
                Call ''delete_container'' [Str (Guid k)]])"
      by (simp add: p claim_refused)
  }
  {
    fix ch e w2
    assume "start_task d (Guid k) (local_cell_id p) w1 = ((ch, Some e), w2)"
    then show "process d p k w =
              (w2, [Call ''task_by_guid'' [Str (Guid k)],
                    Call ''start_task'' [Str (Guid k), Str (local_cell_id p)]])"
      by (simp add: p claim_store_error)
  }
next
  assume l: "task_by_guid d (Guid k) w = (Inr t, w1)" and s: "State t = TaskStatePending"
    and o: "CellID t = [] \<or> CellID t = local_cell_id p"
    and cs: "ContainerState k = StateReserved \<or> ContainerState k = StateInitializing"
    and st: "start_task d (Guid k) (local_cell_id p) w1 = ((True, None), w2)"
  from cs have row: "pending_row (ContainerState k) = ClaimAndRun" by auto
  have p: "process d p k w =
      (fst (claim d p True (Guid k) w1),
       Call ''task_by_guid'' [Str (Guid k)] # snd (claim d p True (Guid k) w1))"
    by (simp add: process_found [OF l] decide_pending [OF s o] row)
  from claim_run_changed [OF st]
  show "\<exists>rest. snd (process d p k w) =
          Call ''task_by_guid'' [Str (Guid k)]
          # Call ''start_task'' [Str (Guid k), Str (local_cell_id p)]
          # Call ''run_container'' [Str (Guid k)] # rest"
    by (simp add: p)
  {
    fix w3
    assume "run_container d (Guid k) w2 = (True, w3)"
    from claim_run_accepted [OF st this]
    show "process d p k w =
              (w3, [Call ''task_by_guid'' [Str (Guid k)],
                    Call ''start_task'' [Str (Guid k), Str (local_cell_id p)],
                    Call ''run_container'' [Str (Guid k)]])"
      by (simp add: p)
  }
next
  assume lk: "lookup_ok c" and sk: "start_ok c"
    and su: "store_lookup (store v) (Guid k) = Some u"
    and s: "State u = TaskStatePending"
    and o: "CellID u = [] \<or> CellID u = local_cell_id p"
    and cs: "ContainerState k = StateCreated \<or> ContainerState k = StateRunning"
  from cs have row: "pending_row (ContainerState k) = ClaimOnly" by auto
  note l = ref_task_by_guid_found [OF lk su]
  note st = ref_start_task_pending [OF sk su s, of "local_cell_id p"]
  have w: "fst (process (ref_processor_deps c) p k v) =
      snd (start_task (ref_processor_deps c) (Guid k) (local_cell_id p) v)"
    using claim_only_world [of "ref_processor_deps c" "Guid k" p v
        "snd (start_task (ref_processor_deps c) (Guid k) (local_cell_id p) v)"] st(1)
    by (simp add: process_found [OF l] decide_pending [OF s o] row prod_eq_iff)
  show "store_lookup (store (fst (process (ref_processor_deps c) p k v))) (Guid k) =
        Some (u\<lparr>CellID := local_cell_id p, State := TaskStateRunning\<rparr>)"
    by (simp add: w st(2) started_def)
  show "executor (fst (process (ref_processor_deps c) p k v)) = executor v"
    by (simp add: w st(3))
next
  assume lk: "lookup_ok c" and sk: "\<not> start_ok c"
    and su: "store_lookup (store v) (Guid k) = Some u"
    and s: "State u = TaskStatePending"
    and o: "CellID u = [] \<or> CellID u = local_cell_id p"
    and cs: "ContainerState k = StateCreated \<or> ContainerState k = StateRunning"
  from cs have row: "pending_row (ContainerState k) = ClaimOnly" by auto
  note l = ref_task_by_guid_found [OF lk su]
  show "process (ref_processor_deps c) p k v =
        (v, [Call ''task_by_guid'' [Str (Guid k)],
             Call ''start_task'' [Str (Guid k), Str (local_cell_id p)]])"
    by (simp add: process_found [OF l] decide_pending [OF s o] row ref_claim_down [OF sk])
qed

text \<open>The row "Created, Pending" of the table-driven test.\<close>

theorem created_or_running_pending_sets_running_witness:
  "lookup_ok all_ok \<and> start_ok all_ok
   \<and> store_lookup (store (world_of (scenario_task ''g7'' [] TaskStatePending) (scenario_container ''g7'' StateCreated)))
        (Guid (scenario_container ''g7'' StateCreated)) = Some (scenario_task ''g7'' [] TaskStatePending)
   \<and> State (scenario_task ''g7'' [] TaskStatePending) = TaskStatePending
   \<and> CellID (scenario_task ''g7'' [] TaskStatePending) = []
   \<and> ContainerState (scenario_container ''g7'' StateCreated) = StateCreated
   \<and> snd (process (ref_processor_deps all_ok) processorA (scenario_container ''g7'' StateCreated)
        (world_of (scenario_task ''g7'' [] TaskStatePending) (scenario_container ''g7'' StateCreated)))
      = [Call ''task_by_guid'' [Str ''g7''], Call ''start_task'' [Str ''g7'', Str ''A'']]
   \<and> store_lookup (store (fst (process (ref_processor_deps all_ok) processorA (scenario_container ''g7'' StateCreated)
        (world_of (scenario_task ''g7'' [] TaskStatePending) (scenario_container ''g7'' StateCreated)))))
        (Guid (scenario_container ''g7'' StateCreated))
      = Some ((scenario_task ''g7'' [] TaskStatePending)\<lparr>CellID := local_cell_id processorA, State := TaskStateRunning\<rparr>)"
proof -
  let ?k = "scenario_container ''g7'' StateCreated"
  let ?t = "scenario_task ''g7'' [] TaskStatePending"
  let ?w = "world_of ?t ?k"
  have h: "lookup_ok all_ok \<and> start_ok all_ok \<and> store_lookup (store ?w) (Guid ?k) = Some ?t \<and>
      State ?t = TaskStatePending \<and> (CellID ?t = [] \<or> CellID ?t = local_cell_id processorA) \<and>
      (ContainerState ?k = StateCreated \<or> ContainerState ?k = StateRunning)"
    by (simp add: store_lookup_def scenario_defs)
  note T = created_or_running_pending_sets_running
    [of "ref_processor_deps all_ok" ?k ?w ?t ?w processorA ?w all_ok ?w ?t]
  note c3 = conjunct1 [OF conjunct2 [OF conjunct2 [OF T]], THEN mp, OF h]
  have tr: "snd (process (ref_processor_deps all_ok) processorA ?k ?w)
      = [Call ''task_by_guid'' [Str ''g7''], Call ''start_task'' [Str ''g7'', Str ''A'']]"
    by (simp add: process_simps ref_processor_simps scenario_defs)
  from h conjunct1 [OF c3] tr show ?thesis by (simp add: scenario_defs)
qed

text \<open>
  The row "Created, Pending" with a store that cannot be reached for the claim:
  \<^verbatim>\<open>start_task\<close> is called and the task is still Pending after \<open>process\<close>.
\<close>

theorem created_or_running_pending_sets_running_counterexample:
  "ContainerState (scenario_container ''g7'' StateCreated) = StateCreated
   \<and> store_lookup (store (world_of (scenario_task ''g7'' [] TaskStatePending) (scenario_container ''g7'' StateCreated)))
        ''g7'' = Some (scenario_task ''g7'' [] TaskStatePending)
   \<and> snd (process (ref_processor_deps claim_down) processorA (scenario_container ''g7'' StateCreated)
        (world_of (scenario_task ''g7'' [] TaskStatePending) (scenario_container ''g7'' StateCreated)))
      = [Call ''task_by_guid'' [Str ''g7''], Call ''start_task'' [Str ''g7'', Str ''A'']]
   \<and> store (fst (process (ref_processor_deps claim_down) processorA (scenario_container ''g7'' StateCreated)
        (world_of (scenario_task ''g7'' [] TaskStatePending) (scenario_container ''g7'' StateCreated))))
      = [\<lparr>TaskGuid = ''g7'', CellID = [], State = TaskStatePending, Failed = False,
           FailureReason = [], Result = [], ResultFile = ''/out''\<rparr>]"
  by (simp add: process_simps ref_processor_simps scenario_defs claim_down_def)

lemma ref_complete_task_same:
  assumes "store_lookup (store w) g = Some t"
  shows "store_lookup (store (snd (complete_task (ref_processor_deps c) g cell f rs res w))) g =
           (if complete_ok c \<and> completable t \<and> owned_or_free cell t
            then Some (completed f rs res t) else Some t)"
    and "executor (snd (complete_task (ref_processor_deps c) g cell f rs res w)) = executor w"
    and "\<not> (complete_ok c \<and> completable t \<and> owned_or_free cell t) \<Longrightarrow>
         snd (complete_task (ref_processor_deps c) g cell f rs res w) = w"
proof -
  have "TaskGuid (if TaskGuid u = g \<and> completable u \<and> owned_or_free cell u
                  then completed f rs res u else u) = TaskGuid u" for u
    by (simp add: completed_def)
  from store_lookup_map [of "\<lambda>u. if TaskGuid u = g \<and> completable u \<and> owned_or_free cell u
                  then completed f rs res u else u", OF this]
    assms store_lookup_in [OF assms]
  show "store_lookup (store (snd (complete_task (ref_processor_deps c) g cell f rs res w))) g =
           (if complete_ok c \<and> completable t \<and> owned_or_free cell t
            then Some (completed f rs res t) else Some t)"
    by (simp add: ref_processor_deps_def ref_complete_task_def)
  from assms
  show "executor (snd (complete_task (ref_processor_deps c) g cell f rs res w)) = executor w"
    by (simp add: ref_processor_deps_def ref_complete_task_def)
  from assms
  show "\<not> (complete_ok c \<and> completable t \<and> owned_or_free cell t) \<Longrightarrow>
         snd (complete_task (ref_processor_deps c) g cell f rs res w) = w"
    by (auto simp: ref_processor_deps_def ref_complete_task_def)
qed

lemma claim_run_order:
  "snd (claim d p True g w) = pre @ Call ''run_container'' as # post \<Longrightarrow>
   Call ''start_task'' [Str g, Str (local_cell_id p)] \<in> set pre"
  by (auto simp: claim_def Cons_eq_append_conv append_eq_Cons_conv
      split: prod.splits option.splits bool.splits)

lemma claim_run_once:
  "length (filter (\<lambda>c. call_name c = ''run_container'') (snd (claim d p run g w))) \<le> 1"
  by (auto simp: claim_def split: prod.splits option.splits bool.splits)

lemma claim_not_changed:
  "fst (start_task d g (local_cell_id p) w) \<noteq> (True, None) \<Longrightarrow>
   call_name ` set (snd (claim d p run g w)) \<subseteq> {''start_task'', ''delete_container''}"
  by (auto simp: claim_def split: prod.splits option.splits bool.splits)

lemma started_facts:
  "State (started cell u) = TaskStateRunning" "CellID (started cell u) = cell"
  "completable (started cell u)" "owned_or_free cell (started cell u)"
  by (simp_all add: started_def completable_def owned_or_free_def)

lemma ref_reserved_pending:
  assumes lk: "lookup_ok c" and su: "store_lookup (store v) (Guid k) = Some u"
    and s: "State u = TaskStatePending" and o: "CellID u = [] \<or> CellID u = local_cell_id p"
    and cs: "ContainerState k = StateReserved \<or> ContainerState k = StateInitializing"
  shows "\<not> start_ok c \<Longrightarrow>
           process (ref_processor_deps c) p k v =
             (v, [Call ''task_by_guid'' [Str (Guid k)],
                  Call ''start_task'' [Str (Guid k), Str (local_cell_id p)]])"
    and "start_ok c \<Longrightarrow> run_ok c \<Longrightarrow>
           snd (process (ref_processor_deps c) p k v) =
             [Call ''task_by_guid'' [Str (Guid k)],
              Call ''start_task'' [Str (Guid k), Str (local_cell_id p)],
              Call ''run_container'' [Str (Guid k)]]
           \<and> store_lookup (store (fst (process (ref_processor_deps c) p k v))) (Guid k) =
               Some (started (local_cell_id p) u)
           \<and> executor (fst (process (ref_processor_deps c) p k v)) = executor v"
    and "start_ok c \<Longrightarrow> \<not> run_ok c \<Longrightarrow>
           snd (process (ref_processor_deps c) p k v) =
             [Call ''task_by_guid'' [Str (Guid k)],
              Call ''start_task'' [Str (Guid k), Str (local_cell_id p)],
              Call ''run_container'' [Str (Guid k)],
              Call ''complete_task''
                [Str (Guid k), Str (local_cell_id p), Bool True, Str ''failed to run container'', Str []]]
           \<and> store_lookup (store (fst (process (ref_processor_deps c) p k v))) (Guid k) =
               (if complete_ok c
                then Some (completed True ''failed to run container'' [] (started (local_cell_id p) u))
                else Some (started (local_cell_id p) u))
           \<and> executor (fst (process (ref_processor_deps c) p k v)) = executor v"
proof -
  from cs have row: "pending_row (ContainerState k) = ClaimAndRun" by auto
  note l = ref_task_by_guid_found [OF lk su]
  have p: "process (ref_processor_deps c) p k v =
      (fst (claim (ref_processor_deps c) p True (Guid k) v),
       Call ''task_by_guid'' [Str (Guid k)] # snd (claim (ref_processor_deps c) p True (Guid k) v))"
    by (simp add: process_found [OF l] decide_pending [OF s o] row)
  show "\<not> start_ok c \<Longrightarrow>
           process (ref_processor_deps c) p k v =
             (v, [Call ''task_by_guid'' [Str (Guid k)],
                  Call ''start_task'' [Str (Guid k), Str (local_cell_id p)]])"
    by (simp add: p ref_claim_down)
  let ?w1 = "snd (start_task (ref_processor_deps c) (Guid k) (local_cell_id p) v)"
  {
    assume sk: "start_ok c"
    note st = ref_start_task_pending [OF sk su s, of "local_cell_id p"]
    from st(1) have "start_task (ref_processor_deps c) (Guid k) (local_cell_id p) v = ((True, None), ?w1)"
      by (simp add: prod_eq_iff)
    note cl = claim_changed [OF this]
    note cm = ref_complete_task_same [OF st(2), of c "local_cell_id p" True "''failed to run container''" "[]"]
    show "run_ok c \<Longrightarrow>
           snd (process (ref_processor_deps c) p k v) =
             [Call ''task_by_guid'' [Str (Guid k)],
              Call ''start_task'' [Str (Guid k), Str (local_cell_id p)],
              Call ''run_container'' [Str (Guid k)]]
           \<and> store_lookup (store (fst (process (ref_processor_deps c) p k v))) (Guid k) =
               Some (started (local_cell_id p) u)
           \<and> executor (fst (process (ref_processor_deps c) p k v)) = executor v"
      by (simp add: p cl ref_run_container st)
    show "\<not> run_ok c \<Longrightarrow>
           snd (process (ref_processor_deps c) p k v) =
             [Call ''task_by_guid'' [Str (Guid k)],
              Call ''start_task'' [Str (Guid k), Str (local_cell_id p)],
              Call ''run_container'' [Str (Guid k)],
              Call ''complete_task''
                [Str (Guid k), Str (local_cell_id p), Bool True, Str ''failed to run container'', Str []]]
           \<and> store_lookup (store (fst (process (ref_processor_deps c) p k v))) (Guid k) =
               (if complete_ok c
                then Some (completed True ''failed to run container'' [] (started (local_cell_id p) u))
                else Some (started (local_cell_id p) u))
           \<and> executor (fst (process (ref_processor_deps c) p k v)) = executor v"
      by (simp add: p cl ref_run_container cm started_facts st(3))
  }
qed

text \<open>
  C4. For a Reserved container whose task is found Pending (with no other owner):
  whatever the store and the delegate answer, \<open>process\<close> invokes \<^verbatim>\<open>start_task\<close> on the
  world the lookup returned, every \<^verbatim>\<open>run_container\<close> call comes after the \<^verbatim>\<open>start_task\<close>
  call, and \<^verbatim>\<open>run_container\<close> is called at most once. When \<^verbatim>\<open>start_task\<close> answers
  \<open>changed\<close> without error, the container is run on the world the store returned: an
  accepted run ends the pass, a refused run is followed by \<^verbatim>\<open>complete_task\<close> with the
  guid, the local cell, \<open>failed = true\<close>, "failed to run container" and the empty result,
  on the world the delegate returned. When \<^verbatim>\<open>start_task\<close> does not answer \<open>changed\<close>
  without error there is neither a \<^verbatim>\<open>run_container\<close> nor a \<^verbatim>\<open>complete_task\<close>: a refused
  claim deletes the container, a store error ends the pass. In the reference world exactly
  one of three holds after \<open>process\<close>: the task is Running and \<^verbatim>\<open>run_container\<close> was
  called exactly once; the run was refused and the task is Completed, failed, with reason
  "failed to run container"; or \<^verbatim>\<open>start_task\<close> answered \<open>changed = false\<close>, the store is
  as before and \<^verbatim>\<open>run_container\<close> was not called. Which one holds is fixed by the answers:
  an accepted run gives the first, a refused run gives the second when the store carries
  the completion out and the first when the store refuses the completion (the task stays
  Running), and a store that cannot be reached for the claim gives the third.
\<close>

theorem claim_then_run:
  "(task_by_guid d (Guid k) w = (Inr t, w1) \<and> State t = TaskStatePending \<and>
    (CellID t = [] \<or> CellID t = local_cell_id p) \<and> ContainerState k = StateReserved \<longrightarrow>
      (\<forall>pre as post. snd (process d p k w) = pre @ Call ''run_container'' as # post \<longrightarrow>
          Call ''start_task'' [Str (Guid k), Str (local_cell_id p)] \<in> set pre)
      \<and> length (filter (\<lambda>c. call_name c = ''run_container'') (snd (process d p k w))) \<le> 1
      \<and> (fst (start_task d (Guid k) (local_cell_id p) w1) \<noteq> (True, None) \<longrightarrow>
           ''run_container'' \<notin> call_name ` set (snd (process d p k w)) \<and>
           ''complete_task'' \<notin> call_name ` set (snd (process d p k w)))
      \<and> (\<forall>w2 w3. start_task d (Guid k) (local_cell_id p) w1 = ((True, None), w2) \<and>
            run_container d (Guid k) w2 = (True, w3) \<longrightarrow>
            process d p k w =
              (w3, [Call ''task_by_guid'' [Str (Guid k)],
                    Call ''start_task'' [Str (Guid k), Str (local_cell_id p)],
                    Call ''run_container'' [Str (Guid k)]]))
      \<and> (\<forall>w2 w3. start_task d (Guid k) (local_cell_id p) w1 = ((True, None), w2) \<and>
            run_container d (Guid k) w2 = (False, w3) \<longrightarrow>
            process d p k w =
              (snd (complete_task d (Guid k) (local_cell_id p) True ''failed to run container'' [] w3),
               [Call ''task_by_guid'' [Str (Guid k)],
                Call ''start_task'' [Str (Guid k), Str (local_cell_id p)],
                Call ''run_container'' [Str (Guid k)],
                Call ''complete_task''
                  [Str (Guid k), Str (local_cell_id p), Bool True,
                   Str ''failed to run container'', Str []]]))
      \<and> (\<forall>w2. start_task d (Guid k) (local_cell_id p) w1 = ((False, None), w2) \<longrightarrow>
            process d p k w =
              (snd (delete_container d (Guid k) w2),
               [Call ''task_by_guid'' [Str (Guid k)],
                Call ''start_task'' [Str (Guid k), Str (local_cell_id p)],
                Call ''delete_container'' [Str (Guid k)]]))
      \<and> (\<forall>ch e w2. start_task d (Guid k) (local_cell_id p) w1 = ((ch, Some e), w2) \<longrightarrow>
            process d p k w =
              (w2, [Call ''task_by_guid'' [Str (Guid k)],
                    Call ''start_task'' [Str (Guid k), Str (local_cell_id p)]])))
   \<and> (lookup_ok c \<and> store_lookup (store v) (Guid k) = Some u \<and> State u = TaskStatePending \<and>
      (CellID u = [] \<or> CellID u = local_cell_id p) \<and> ContainerState k = StateReserved \<longrightarrow>
      (let w' = fst (process (ref_processor_deps c) p k v);
           cs = snd (process (ref_processor_deps c) p k v);
           after = store_lookup (store w') (Guid k);
           A = (map_option State after = Some TaskStateRunning \<and>
                length (filter (\<lambda>c. call_name c = ''run_container'') cs) = 1);
           B = (\<not> fst (run_container (ref_processor_deps c) (Guid k) v) \<and>
                map_option (\<lambda>t. (State t, Failed t, FailureReason t)) after =
                  Some (TaskStateCompleted, True, ''failed to run container''));
           C = (\<not> fst (fst (start_task (ref_processor_deps c) (Guid k) (local_cell_id p) v)) \<and>
                store w' = store v \<and>
                filter (\<lambda>c. call_name c = ''run_container'') cs = [])
       in (A \<and> \<not> B \<and> \<not> C) \<or> (\<not> A \<and> B \<and> \<not> C) \<or> (\<not> A \<and> \<not> B \<and> C))
      \<and> (start_ok c \<and> run_ok c \<longrightarrow>
           store_lookup (store (fst (process (ref_processor_deps c) p k v))) (Guid k) =
             Some (u\<lparr>CellID := local_cell_id p, State := TaskStateRunning\<rparr>))
      \<and> (start_ok c \<and> \<not> run_ok c \<and> complete_ok c \<longrightarrow>
           store_lookup (store (fst (process (ref_processor_deps c) p k v))) (Guid k) =
             Some (u\<lparr>CellID := local_cell_id p, State := TaskStateCompleted, Failed := True,
                     FailureReason := ''failed to run container'', Result := []\<rparr>))
      \<and> (start_ok c \<and> \<not> run_ok c \<and> \<not> complete_ok c \<longrightarrow>
           store_lookup (store (fst (process (ref_processor_deps c) p k v))) (Guid k) =
             Some (u\<lparr>CellID := local_cell_id p, State := TaskStateRunning\<rparr>)
           \<and> Call ''complete_task''
                 [Str (Guid k), Str (local_cell_id p), Bool True,
                  Str ''failed to run container'', Str []]
               \<in> set (snd (process (ref_processor_deps c) p k v)))
      \<and> (\<not> start_ok c \<longrightarrow>
           process (ref_processor_deps c) p k v =
             (v, [Call ''task_by_guid'' [Str (Guid k)],
                  Call ''start_task'' [Str (Guid k), Str (local_cell_id p)]])))"
proof (intro conjI impI allI; (elim conjE)?)
  assume l: "task_by_guid d (Guid k) w = (Inr t, w1)" and s: "State t = TaskStatePending"
    and o: "CellID t = [] \<or> CellID t = local_cell_id p"
    and cs: "ContainerState k = StateReserved"
  have p: "snd (process d p k w) =
      Call ''task_by_guid'' [Str (Guid k)] # snd (claim d p True (Guid k) w1)"
    by (simp add: process_found [OF l] decide_pending [OF s o] cs)
  have pw: "process d p k w =
      (fst (claim d p True (Guid k) w1),
       Call ''task_by_guid'' [Str (Guid k)] # snd (claim d p True (Guid k) w1))"
    by (simp add: process_found [OF l] decide_pending [OF s o] cs)
  {
    fix w2 w3
    assume st: "start_task d (Guid k) (local_cell_id p) w1 = ((True, None), w2)"
      and rn: "run_container d (Guid k) w2 = (True, w3)"
    from claim_run_accepted [OF st rn]
    show "process d p k w =
              (w3, [Call ''task_by_guid'' [Str (Guid k)],
                    Call ''start_task'' [Str (Guid k), Str (local_cell_id p)],
                    Call ''run_container'' [Str (Guid k)]])"
      by (simp add: pw)
  }
  {
    fix w2 w3
    assume st: "start_task d (Guid k) (local_cell_id p) w1 = ((True, None), w2)"
      and rn: "run_container d (Guid k) w2 = (False, w3)"
    from claim_run_refused [OF st rn]
    show "process d p k w =
              (snd (complete_task d (Guid k) (local_cell_id p) True ''failed to run container'' [] w3),
               [Call ''task_by_guid'' [Str (Guid k)],
                Call ''start_task'' [Str (Guid k), Str (local_cell_id p)],
                Call ''run_container'' [Str (Guid k)],
                Call ''complete_task''
                  [Str (Guid k), Str (local_cell_id p), Bool True,
                   Str ''failed to run container'', Str []]])"
      by (simp add: pw)
  }
  {
    fix w2
    assume "start_task d (Guid k) (local_cell_id p) w1 = ((False, None), w2)"
    then show "process d p k w =
              (snd (delete_container d (Guid k) w2),
               [Call ''task_by_guid'' [Str (Guid k)],
                Call ''start_task'' [Str (Guid k), Str (local_cell_id p)],
                Call ''delete_container'' [Str (Guid k)]])"
      by (simp add: pw claim_refused)
  }
  {
    fix ch e w2
    assume "start_task d (Guid k) (local_cell_id p) w1 = ((ch, Some e), w2)"
    then show "process d p k w =
              (w2, [Call ''task_by_guid'' [Str (Guid k)],
                    Call ''start_task'' [Str (Guid k), Str (local_cell_id p)]])"
      by (simp add: pw claim_store_error)
  }
  {
    fix pre as post
    assume e: "snd (process d p k w) = pre @ Call ''run_container'' as # post"
    then obtain pre' where pre: "pre = Call ''task_by_guid'' [Str (Guid k)] # pre'"
      and e': "snd (claim d p True (Guid k) w1) = pre' @ Call ''run_container'' as # post"
      by (auto simp: p Cons_eq_append_conv)
    from claim_run_order [OF e'] pre
    show "Call ''start_task'' [Str (Guid k), Str (local_cell_id p)] \<in> set pre" by simp
  }
  from claim_run_once [of d p True "Guid k" w1]
  show "length (filter (\<lambda>c. call_name c = ''run_container'') (snd (process d p k w))) \<le> 1"
    by (simp add: p)
  {
    assume n: "fst (start_task d (Guid k) (local_cell_id p) w1) \<noteq> (True, None)"
    from claim_not_changed [OF n, of True]
    show "''run_container'' \<notin> call_name ` set (snd (process d p k w))"
      and "''complete_task'' \<notin> call_name ` set (snd (process d p k w))"
      by (auto simp: p)
  }
next
  assume lk: "lookup_ok c" and su: "store_lookup (store v) (Guid k) = Some u"
    and s: "State u = TaskStatePending" and o: "CellID u = [] \<or> CellID u = local_cell_id p"
    and cs: "ContainerState k = StateReserved"
  from cs have cs': "ContainerState k = StateReserved \<or> ContainerState k = StateInitializing" by simp
  note rp = ref_reserved_pending [OF lk su s o cs']
  {
    assume "start_ok c" "run_ok c"
    from rp(2) [OF this]
    show "store_lookup (store (fst (process (ref_processor_deps c) p k v))) (Guid k) =
             Some (u\<lparr>CellID := local_cell_id p, State := TaskStateRunning\<rparr>)"
      by (simp add: started_def)
  }
  {
    assume "start_ok c" "\<not> run_ok c" "complete_ok c"
    from rp(3) [OF this(1,2)] this(3)
    show "store_lookup (store (fst (process (ref_processor_deps c) p k v))) (Guid k) =
             Some (u\<lparr>CellID := local_cell_id p, State := TaskStateCompleted, Failed := True,
                     FailureReason := ''failed to run container'', Result := []\<rparr>)"
      by (simp add: started_def completed_def)
  }
  {
    assume a: "start_ok c" "\<not> run_ok c" "\<not> complete_ok c"
    from rp(3) [OF a(1,2)] a(3)
    show "store_lookup (store (fst (process (ref_processor_deps c) p k v))) (Guid k) =
             Some (u\<lparr>CellID := local_cell_id p, State := TaskStateRunning\<rparr>)"
      by (simp add: started_def)
    from rp(3) [OF a(1,2)]
    show "Call ''complete_task''
                 [Str (Guid k), Str (local_cell_id p), Bool True,
                  Str ''failed to run container'', Str []]
               \<in> set (snd (process (ref_processor_deps c) p k v))"
      by simp
  }
  {
    assume "\<not> start_ok c"
    from rp(1) [OF this]
    show "process (ref_processor_deps c) p k v =
             (v, [Call ''task_by_guid'' [Str (Guid k)],
                  Call ''start_task'' [Str (Guid k), Str (local_cell_id p)]])" .
  }
  show "let w' = fst (process (ref_processor_deps c) p k v);
           cs = snd (process (ref_processor_deps c) p k v);
           after = store_lookup (store w') (Guid k);
           A = (map_option State after = Some TaskStateRunning \<and>
                length (filter (\<lambda>c. call_name c = ''run_container'') cs) = 1);
           B = (\<not> fst (run_container (ref_processor_deps c) (Guid k) v) \<and>
                map_option (\<lambda>t. (State t, Failed t, FailureReason t)) after =
                  Some (TaskStateCompleted, True, ''failed to run container''));
           C = (\<not> fst (fst (start_task (ref_processor_deps c) (Guid k) (local_cell_id p) v)) \<and>
                store w' = store v \<and>
                filter (\<lambda>c. call_name c = ''run_container'') cs = [])
       in (A \<and> \<not> B \<and> \<not> C) \<or> (\<not> A \<and> B \<and> \<not> C) \<or> (\<not> A \<and> \<not> B \<and> C)"
  proof (cases "start_ok c")
    case False
    from rp(1) [OF False] ref_start_task_down [OF False, of "Guid k" "local_cell_id p" v] su s
    show ?thesis by (simp add: Let_def)
  next
    case sk: True
    note st = ref_start_task_pending [OF sk su s, of "local_cell_id p"]
    show ?thesis
    proof (cases "run_ok c")
      case True
      from rp(2) [OF sk True] st(1) show ?thesis
        by (simp add: Let_def ref_run_container started_facts)
    next
      case False
      from rp(3) [OF sk False] st(1) False show ?thesis
        by (simp add: Let_def ref_run_container started_facts completed_def)
    qed
  qed
qed

text \<open>
  Scenario 2 of the specification, with an executor that refuses the run: the task is
  claimed, the run is tried once and the task completed as failed.
\<close>

theorem claim_then_run_witness:
  "lookup_ok run_refused
   \<and> store_lookup (store (world_of (scenario_task ''g2'' [] TaskStatePending) (scenario_container ''g2'' StateReserved)))
        (Guid (scenario_container ''g2'' StateReserved)) = Some (scenario_task ''g2'' [] TaskStatePending)
   \<and> State (scenario_task ''g2'' [] TaskStatePending) = TaskStatePending
   \<and> CellID (scenario_task ''g2'' [] TaskStatePending) = []
   \<and> ContainerState (scenario_container ''g2'' StateReserved) = StateReserved
   \<and> start_ok run_refused \<and> \<not> run_ok run_refused \<and> complete_ok run_refused
   \<and> snd (process (ref_processor_deps run_refused) processorA (scenario_container ''g2'' StateReserved)
        (world_of (scenario_task ''g2'' [] TaskStatePending) (scenario_container ''g2'' StateReserved)))
      = [Call ''task_by_guid'' [Str ''g2''], Call ''start_task'' [Str ''g2'', Str ''A''],
         Call ''run_container'' [Str ''g2''],
         Call ''complete_task'' [Str ''g2'', Str ''A'', Bool True, Str ''failed to run container'', Str []]]
   \<and> length (filter (\<lambda>c. call_name c = ''run_container'')
        (snd (process (ref_processor_deps run_refused) processorA (scenario_container ''g2'' StateReserved)
          (world_of (scenario_task ''g2'' [] TaskStatePending) (scenario_container ''g2'' StateReserved))))) \<le> 1
   \<and> store_lookup (store (fst (process (ref_processor_deps run_refused) processorA (scenario_container ''g2'' StateReserved)
        (world_of (scenario_task ''g2'' [] TaskStatePending) (scenario_container ''g2'' StateReserved)))))
        (Guid (scenario_container ''g2'' StateReserved))
      = Some ((scenario_task ''g2'' [] TaskStatePending)
               \<lparr>CellID := local_cell_id processorA, State := TaskStateCompleted, Failed := True,
                FailureReason := ''failed to run container'', Result := []\<rparr>)"
proof -
  let ?k = "scenario_container ''g2'' StateReserved"
  let ?t = "scenario_task ''g2'' [] TaskStatePending"
  let ?w = "world_of ?t ?k"
  have h1: "task_by_guid (ref_processor_deps run_refused) (Guid ?k) ?w = (Inr ?t, ?w) \<and>
      State ?t = TaskStatePending \<and> (CellID ?t = [] \<or> CellID ?t = local_cell_id processorA) \<and>
      ContainerState ?k = StateReserved"
    by (simp add: ref_processor_simps scenario_defs run_refused_def)
  have h2: "lookup_ok run_refused \<and> store_lookup (store ?w) (Guid ?k) = Some ?t \<and>
      State ?t = TaskStatePending \<and> (CellID ?t = [] \<or> CellID ?t = local_cell_id processorA) \<and>
      ContainerState ?k = StateReserved"
    by (simp add: store_lookup_def scenario_defs run_refused_def)
  have h3: "start_ok run_refused \<and> \<not> run_ok run_refused \<and> complete_ok run_refused"
    by (simp add: run_refused_def)
  note T = claim_then_run [of "ref_processor_deps run_refused" ?k ?w ?t ?w processorA run_refused ?w ?t]
  note c1 = conjunct1 [OF T, THEN mp, OF h1]
  note c2 = conjunct2 [OF T, THEN mp, OF h2]
  note once = c1 [THEN conjunct2, THEN conjunct1]
  note pin = c2 [THEN conjunct2, THEN conjunct2, THEN conjunct1, THEN mp, OF h3]
  have tr: "snd (process (ref_processor_deps run_refused) processorA ?k ?w)
      = [Call ''task_by_guid'' [Str ''g2''], Call ''start_task'' [Str ''g2'', Str ''A''],
         Call ''run_container'' [Str ''g2''],
         Call ''complete_task'' [Str ''g2'', Str ''A'', Bool True, Str ''failed to run container'', Str []]]"
    by (simp add: process_simps ref_processor_simps scenario_defs run_refused_def)
  have e: "lookup_ok run_refused \<and> store_lookup (store ?w) (Guid ?k) = Some ?t \<and>
      State ?t = TaskStatePending \<and> CellID ?t = [] \<and> ContainerState ?k = StateReserved"
    by (simp add: store_lookup_def scenario_defs run_refused_def)
  from e h3 tr once pin show ?thesis by (intro conjI) (simp_all only: simp_thms)
qed

lemma complete_and_delete_calls:
  "snd (complete_and_delete d p g failed reason result w) =
     [Call ''complete_task'' [Str g, Str (local_cell_id p), Bool failed, Str reason, Str result],
      Call ''delete_container'' [Str g]]"
  by (simp add: complete_and_delete_def split: prod.splits)

lemma complete_and_delete_world:
  "fst (complete_and_delete d p g failed reason result w) =
     snd (delete_container d g (snd (complete_task d g (local_cell_id p) failed reason result w)))"
  by (simp add: complete_and_delete_def split: prod.splits)

lemma ref_delete_executor:
  "executor (snd (delete_container (ref_processor_deps c) g v)) = (executor v)(g := None)"
  by (simp add: ref_processor_deps_def ref_delete_container_def)

lemma ref_complete_and_delete:
  assumes "store_lookup (store v) g = Some u"
  shows "store_lookup (store (fst (complete_and_delete (ref_processor_deps c) p g f rs res v))) g =
           (if complete_ok c \<and> completable u \<and> owned_or_free (local_cell_id p) u
            then Some (completed f rs res u) else Some u)"
    and "executor (fst (complete_and_delete (ref_processor_deps c) p g f rs res v)) =
           (executor v)(g := None)"
  using ref_complete_task_same [OF assms, of c "local_cell_id p" f rs res]
  by (simp_all add: complete_and_delete_world ref_delete_store ref_delete_executor)

lemma perform_complete_failed:
  "RunFailed (RunResult k) \<Longrightarrow>
   perform d p k CompleteFromRunResult w =
     complete_and_delete d p (Guid k) True (RunFailureReason (RunResult k)) [] w"
  by simp

lemma perform_complete_fetched:
  "\<not> RunFailed (RunResult k) \<Longrightarrow>
   fetch_container_result_file d (Guid k) (result_file_path p k) w = (Inr text, w2) \<Longrightarrow>
   perform d p k CompleteFromRunResult w =
     (fst (complete_and_delete d p (Guid k) False [] text w2),
      Call ''fetch_container_result_file'' [Str (Guid k), Str (result_file_path p k)]
      # snd (complete_and_delete d p (Guid k) False [] text w2))"
  by (simp split: prod.splits)

lemma perform_complete_fetch_failed:
  "\<not> RunFailed (RunResult k) \<Longrightarrow>
   fetch_container_result_file d (Guid k) (result_file_path p k) w = (Inl e, w2) \<Longrightarrow>
   perform d p k CompleteFromRunResult w =
     (fst (complete_and_delete d p (Guid k) True ''failed to fetch result'' [] w2),
      Call ''fetch_container_result_file'' [Str (Guid k), Str (result_file_path p k)]
      # snd (complete_and_delete d p (Guid k) True ''failed to fetch result'' [] w2))"
  by (simp split: prod.splits)

lemma ref_fetch:
  "fetch_container_result_file (ref_processor_deps c) g path v = (fetch_reply c, v)"
  by (simp add: ref_processor_deps_def)

text \<open>
  C3 (as amended). For a Completed container whose task is found Running on the local
  cell, whatever the store and the delegate answer: if the run failed, the calls are the
  lookup, \<^verbatim>\<open>complete_task\<close> with the run's failure reason and \<^verbatim>\<open>delete_container\<close>, and
  the result file is not fetched; if the run succeeded, the result file is fetched at the
  path of the result-file tag, a fetched text is passed to \<^verbatim>\<open>complete_task\<close> as the result
  of a task that did not fail, a failed fetch gives \<^verbatim>\<open>complete_task\<close> with failure
  "failed to fetch result", and \<^verbatim>\<open>delete_container\<close> follows in both branches. When the
  reference store carries the completion out, the task is Completed afterwards, either
  failed with an empty result or not failed with the fetched text as result (the text of
  an empty file is empty), and the executor no longer holds the container.
\<close>

theorem terminal_completion:
  "(task_by_guid d (Guid k) w = (Inr t, w1) \<and> State t = TaskStateRunning \<and>
    CellID t = local_cell_id p \<and> ContainerState k = StateCompleted \<longrightarrow>
      (RunFailed (RunResult k) \<longrightarrow>
         snd (process d p k w) =
           [Call ''task_by_guid'' [Str (Guid k)],
            Call ''complete_task''
              [Str (Guid k), Str (local_cell_id p), Bool True,
               Str (RunFailureReason (RunResult k)), Str []],
            Call ''delete_container'' [Str (Guid k)]])
      \<and> (\<forall>text w2. \<not> RunFailed (RunResult k) \<and>
            fetch_container_result_file d (Guid k) (result_file_path p k) w1 = (Inr text, w2) \<longrightarrow>
         snd (process d p k w) =
           [Call ''task_by_guid'' [Str (Guid k)],
            Call ''fetch_container_result_file'' [Str (Guid k), Str (result_file_path p k)],
            Call ''complete_task''
              [Str (Guid k), Str (local_cell_id p), Bool False, Str [], Str text],
            Call ''delete_container'' [Str (Guid k)]])
      \<and> (\<forall>e w2. \<not> RunFailed (RunResult k) \<and>
            fetch_container_result_file d (Guid k) (result_file_path p k) w1 = (Inl e, w2) \<longrightarrow>
         snd (process d p k w) =
           [Call ''task_by_guid'' [Str (Guid k)],
            Call ''fetch_container_result_file'' [Str (Guid k), Str (result_file_path p k)],
            Call ''complete_task''
              [Str (Guid k), Str (local_cell_id p), Bool True, Str ''failed to fetch result'', Str []],
            Call ''delete_container'' [Str (Guid k)]]))
   \<and> (lookup_ok c \<and> complete_ok c \<and> store_lookup (store v) (Guid k) = Some u \<and>
      State u = TaskStateRunning \<and> CellID u = local_cell_id p \<and>
      ContainerState k = StateCompleted \<longrightarrow>
      store_lookup (store (fst (process (ref_processor_deps c) p k v))) (Guid k) =
        Some (if RunFailed (RunResult k)
              then u\<lparr>State := TaskStateCompleted, Failed := True,
                     FailureReason := RunFailureReason (RunResult k), Result := []\<rparr>
              else (case fetch_reply c of
                      Inr text \<Rightarrow>
                        u\<lparr>State := TaskStateCompleted, Failed := False,
                          FailureReason := [], Result := text\<rparr>
                    | Inl e \<Rightarrow>
                        u\<lparr>State := TaskStateCompleted, Failed := True,
                          FailureReason := ''failed to fetch result'', Result := []\<rparr>))
      \<and> executor (fst (process (ref_processor_deps c) p k v)) = (executor v)(Guid k := None))"
proof (intro conjI impI allI; (elim conjE)?)
  assume l: "task_by_guid d (Guid k) w = (Inr t, w1)" and s: "State t = TaskStateRunning"
    and o: "CellID t = local_cell_id p" and cs: "ContainerState k = StateCompleted"
  have p: "process d p k w =
      (fst (perform d p k CompleteFromRunResult w1),
       Call ''task_by_guid'' [Str (Guid k)] # snd (perform d p k CompleteFromRunResult w1))"
    by (simp add: process_found [OF l] decide_running_local [OF s o] cs del: perform.simps)
  {
    assume "RunFailed (RunResult k)"
    then show "snd (process d p k w) =
           [Call ''task_by_guid'' [Str (Guid k)],
            Call ''complete_task''
              [Str (Guid k), Str (local_cell_id p), Bool True,
               Str (RunFailureReason (RunResult k)), Str []],
            Call ''delete_container'' [Str (Guid k)]]"
      by (simp add: p perform_complete_failed complete_and_delete_calls del: perform.simps)
  }
  {
    fix res w2
    assume "\<not> RunFailed (RunResult k)"
      and "fetch_container_result_file d (Guid k) (result_file_path p k) w1 = (Inr res, w2)"
    then show "snd (process d p k w) =
           [Call ''task_by_guid'' [Str (Guid k)],
            Call ''fetch_container_result_file'' [Str (Guid k), Str (result_file_path p k)],
            Call ''complete_task''
              [Str (Guid k), Str (local_cell_id p), Bool False, Str [], Str res],
            Call ''delete_container'' [Str (Guid k)]]"
      by (simp add: p perform_complete_fetched complete_and_delete_calls del: perform.simps)
  }
  {
    fix e w2
    assume "\<not> RunFailed (RunResult k)"
      and "fetch_container_result_file d (Guid k) (result_file_path p k) w1 = (Inl e, w2)"
    then show "snd (process d p k w) =
           [Call ''task_by_guid'' [Str (Guid k)],
            Call ''fetch_container_result_file'' [Str (Guid k), Str (result_file_path p k)],
            Call ''complete_task''
              [Str (Guid k), Str (local_cell_id p), Bool True, Str ''failed to fetch result'', Str []],
            Call ''delete_container'' [Str (Guid k)]]"
      by (simp add: p perform_complete_fetch_failed complete_and_delete_calls del: perform.simps)
  }
next
  assume lk: "lookup_ok c" and ck: "complete_ok c"
    and su: "store_lookup (store v) (Guid k) = Some u"
    and s: "State u = TaskStateRunning" and o: "CellID u = local_cell_id p"
    and cs: "ContainerState k = StateCompleted"
  note l = ref_task_by_guid_found [OF lk su]
  have p: "fst (process (ref_processor_deps c) p k v) =
      fst (perform (ref_processor_deps c) p k CompleteFromRunResult v)"
    by (simp add: process_found [OF l] decide_running_local [OF s o] cs del: perform.simps)
  have ok: "completable u" "owned_or_free (local_cell_id p) u"
    using s o by (simp_all add: completable_def owned_or_free_def)
  note cd = ref_complete_and_delete [OF su, of c p]
  have both: "store_lookup (store (fst (process (ref_processor_deps c) p k v))) (Guid k) =
        Some (if RunFailed (RunResult k)
              then u\<lparr>State := TaskStateCompleted, Failed := True,
                     FailureReason := RunFailureReason (RunResult k), Result := []\<rparr>
              else (case fetch_reply c of
                      Inr text \<Rightarrow>
                        u\<lparr>State := TaskStateCompleted, Failed := False,
                          FailureReason := [], Result := text\<rparr>
                    | Inl e \<Rightarrow>
                        u\<lparr>State := TaskStateCompleted, Failed := True,
                          FailureReason := ''failed to fetch result'', Result := []\<rparr>))
      \<and> executor (fst (process (ref_processor_deps c) p k v)) = (executor v)(Guid k := None)"
  proof (cases "RunFailed (RunResult k)")
    case True
    then show ?thesis
      by (simp add: p perform_complete_failed cd ck ok completed_def del: perform.simps)
  next
    case False
    show ?thesis
    proof (cases "fetch_reply c")
      case (Inl e)
      with False ref_fetch [of c "Guid k" "result_file_path p k" v] show ?thesis
        by (simp add: p perform_complete_fetch_failed cd ck ok completed_def del: perform.simps)
    next
      case (Inr res)
      with False ref_fetch [of c "Guid k" "result_file_path p k" v] show ?thesis
        by (simp add: p perform_complete_fetched cd ck ok completed_def del: perform.simps)
    qed
  qed
  from both show "store_lookup (store (fst (process (ref_processor_deps c) p k v))) (Guid k) =
        Some (if RunFailed (RunResult k)
              then u\<lparr>State := TaskStateCompleted, Failed := True,
                     FailureReason := RunFailureReason (RunResult k), Result := []\<rparr>
              else (case fetch_reply c of
                      Inr text \<Rightarrow>
                        u\<lparr>State := TaskStateCompleted, Failed := False,
                          FailureReason := [], Result := text\<rparr>
                    | Inl e \<Rightarrow>
                        u\<lparr>State := TaskStateCompleted, Failed := True,
                          FailureReason := ''failed to fetch result'', Result := []\<rparr>))"
    by (rule conjunct1)
  from both show "executor (fst (process (ref_processor_deps c) p k v)) = (executor v)(Guid k := None)"
    by (rule conjunct2)
qed

text \<open>Scenario 4 of the specification: the run succeeded and the result file reads "payload".\<close>

theorem terminal_completion_witness:
  "lookup_ok all_ok \<and> complete_ok all_ok
   \<and> store_lookup (store (world_of (scenario_task ''g4'' ''A'' TaskStateRunning)
          (scenario_completed_container ''g4'' \<lparr>RunFailed = False, RunFailureReason = []\<rparr>)))
        (Guid (scenario_completed_container ''g4'' \<lparr>RunFailed = False, RunFailureReason = []\<rparr>))
       = Some (scenario_task ''g4'' ''A'' TaskStateRunning)
   \<and> State (scenario_task ''g4'' ''A'' TaskStateRunning) = TaskStateRunning
   \<and> CellID (scenario_task ''g4'' ''A'' TaskStateRunning) = local_cell_id processorA
   \<and> ContainerState (scenario_completed_container ''g4'' \<lparr>RunFailed = False, RunFailureReason = []\<rparr>)
       = StateCompleted
   \<and> store_lookup (store (fst (process (ref_processor_deps all_ok) processorA
          (scenario_completed_container ''g4'' \<lparr>RunFailed = False, RunFailureReason = []\<rparr>)
          (world_of (scenario_task ''g4'' ''A'' TaskStateRunning)
            (scenario_completed_container ''g4'' \<lparr>RunFailed = False, RunFailureReason = []\<rparr>))))) ''g4''
       = Some \<lparr>TaskGuid = ''g4'', CellID = ''A'', State = TaskStateCompleted, Failed = False,
               FailureReason = [], Result = ''payload'', ResultFile = ''/out''\<rparr>
   \<and> executor (fst (process (ref_processor_deps all_ok) processorA
          (scenario_completed_container ''g4'' \<lparr>RunFailed = False, RunFailureReason = []\<rparr>)
          (world_of (scenario_task ''g4'' ''A'' TaskStateRunning)
            (scenario_completed_container ''g4'' \<lparr>RunFailed = False, RunFailureReason = []\<rparr>)))) ''g4''
       = None"
proof -
  let ?k = "scenario_completed_container ''g4'' \<lparr>RunFailed = False, RunFailureReason = []\<rparr>"
  let ?t = "scenario_task ''g4'' ''A'' TaskStateRunning"
  let ?w = "world_of ?t ?k"
  have h: "lookup_ok all_ok \<and> complete_ok all_ok \<and> store_lookup (store ?w) (Guid ?k) = Some ?t \<and>
      State ?t = TaskStateRunning \<and> CellID ?t = local_cell_id processorA \<and>
      ContainerState ?k = StateCompleted"
    by (simp add: store_lookup_def scenario_defs)
  note T = terminal_completion [of "ref_processor_deps all_ok" ?k ?w ?t ?w processorA all_ok ?w ?t]
  note c2 = conjunct2 [OF T, THEN mp, OF h]
  from h c2 show ?thesis by (simp add: scenario_defs)
qed

text \<open>
  Scenario 4 with an empty result file: the task is Completed with \<open>failed = false\<close> and
  an empty result, so neither of the two is populated. And scenario 4 with a store that
  refuses the completion: the container is deleted and the task is still Running.
\<close>

theorem terminal_completion_counterexample:
  "process (ref_processor_deps empty_result_file) processorA
      (scenario_completed_container ''g4'' \<lparr>RunFailed = False, RunFailureReason = []\<rparr>)
      (world_of (scenario_task ''g4'' ''A'' TaskStateRunning)
        (scenario_completed_container ''g4'' \<lparr>RunFailed = False, RunFailureReason = []\<rparr>))
    = (\<lparr>store = [\<lparr>TaskGuid = ''g4'', CellID = ''A'', State = TaskStateCompleted, Failed = False,
                   FailureReason = [], Result = [], ResultFile = ''/out''\<rparr>],
         executor = Map.empty\<rparr>,
       [Call ''task_by_guid'' [Str ''g4''],
        Call ''fetch_container_result_file'' [Str ''g4'', Str ''/out''],
        Call ''complete_task'' [Str ''g4'', Str ''A'', Bool False, Str [], Str []],
        Call ''delete_container'' [Str ''g4'']])
   \<and> process (ref_processor_deps complete_down) processorA
      (scenario_completed_container ''g4'' \<lparr>RunFailed = False, RunFailureReason = []\<rparr>)
      (world_of (scenario_task ''g4'' ''A'' TaskStateRunning)
        (scenario_completed_container ''g4'' \<lparr>RunFailed = False, RunFailureReason = []\<rparr>))
    = (\<lparr>store = [\<lparr>TaskGuid = ''g4'', CellID = ''A'', State = TaskStateRunning, Failed = False,
                   FailureReason = [], Result = [], ResultFile = ''/out''\<rparr>],
         executor = Map.empty\<rparr>,
       [Call ''task_by_guid'' [Str ''g4''],
        Call ''fetch_container_result_file'' [Str ''g4'', Str ''/out''],
        Call ''complete_task'' [Str ''g4'', Str ''A'', Bool False, Str [], Str ''payload''],
        Call ''delete_container'' [Str ''g4'']])"
  by (simp add: process_simps ref_processor_simps scenario_defs empty_result_file_def complete_down_def)























end
